theory Spec2Isabelle
  imports Complex_Main
begin

section \<open>JavaScript numbers and values\<close>

text \<open>
  The server computes with JavaScript numbers, which are IEEE 754 doubles. Two readings
  of them are used. In the first a number is a real number, with \<open>None\<close> standing for
  \<open>NaN\<close>: the rounding error of doubles, overflow to an infinity and the sign of zero are
  not modelled. The distance function, which goes through sine, cosine, square root and
  arc tangent, and the request handlers are modelled in this exact-arithmetic reading, and
  the statements about them are statements about it. In the second reading a number is a
  double, and every operation rounds to the nearest double; the pricing function, which
  only adds, multiplies, divides, compares and rounds to an integer, is modelled in both
  readings.
\<close>

type_synonym number = "real option"

text \<open>\<open>x >= y\<close> and \<open>x > y\<close> on numbers: a comparison with \<open>NaN\<close> is false. An absent
  (\<open>undefined\<close>) operand converts to \<open>NaN\<close>, so \<open>None\<close> also stands for it.\<close>

definition js_ge :: "number \<Rightarrow> number \<Rightarrow> bool" where
  "js_ge x y = (case x of None \<Rightarrow> False | Some a \<Rightarrow> (case y of None \<Rightarrow> False | Some b \<Rightarrow> b \<le> a))"

definition js_gt :: "number \<Rightarrow> number \<Rightarrow> bool" where
  "js_gt x y = (case x of None \<Rightarrow> False | Some a \<Rightarrow> (case y of None \<Rightarrow> False | Some b \<Rightarrow> b < a))"

text \<open>\<open>Math.round\<close>: the nearest integer, a tie going towards plus infinity.\<close>

definition Math_round :: "real \<Rightarrow> real" where
  "Math_round x = of_int \<lfloor>x + 1 / 2\<rfloor>"

text \<open>\<open>Math.sqrt\<close> is \<open>NaN\<close> on a negative argument (HOL's \<open>sqrt\<close> is not).\<close>

definition Math_sqrt :: "real \<Rightarrow> number" where
  "Math_sqrt x = (if x < 0 then None else Some (sqrt x))"

text \<open>\<open>Math.atan2(y, x)\<close>: the angle of the point \<open>(x, y)\<close>, in \<open>(-pi, pi]\<close>.\<close>

definition Math_atan2 :: "real \<Rightarrow> real \<Rightarrow> real" where
  "Math_atan2 y x =
     (if 0 < x then arctan (y / x)
      else if x < 0 then (if 0 \<le> y then arctan (y / x) + pi else arctan (y / x) - pi)
      else if 0 < y then pi / 2
      else if y < 0 then - (pi / 2)
      else 0)"

text \<open>A field of a JSON request body, or an environment variable, that holds a string:
  \<open>None\<close> when it is absent. It is falsy when absent or empty.\<close>

definition truthy :: "string option \<Rightarrow> bool" where
  "truthy v = (case v of None \<Rightarrow> False | Some s \<Rightarrow> s \<noteq> [])"

text \<open>A value spliced into a template literal.\<close>

definition template :: "string option \<Rightarrow> string" where
  "template v = (case v of None \<Rightarrow> ''undefined'' | Some s \<Rightarrow> s)"

text \<open>The decimal text of an integral number, as a template literal prints it (below
  \<open>10^21\<close>, where JavaScript switches to exponent notation).\<close>

fun digits :: "nat \<Rightarrow> string" where
  "digits n = (if n < 10 then [''0123456789'' ! n]
               else digits (n div 10) @ [''0123456789'' ! (n mod 10)])"

definition Number_toString :: "number \<Rightarrow> string" where
  "Number_toString v =
     (case v of None \<Rightarrow> ''NaN''
      | Some r \<Rightarrow> (if r < 0 then ''-'' @ digits (nat (- \<lfloor>r\<rfloor>)) else digits (nat \<lfloor>r\<rfloor>)))"

text \<open>JSON values of response bodies and stored documents. \<open>JSON.stringify\<close> writes
  \<open>NaN\<close> as \<open>null\<close>.\<close>

datatype json = JNull | JBool bool | JNum real | JStr string | JDate int

definition json_of_number :: "number \<Rightarrow> json" where
  "json_of_number v = (case v of None \<Rightarrow> JNull | Some r \<Rightarrow> JNum r)"

record response =
  status :: nat
  body :: "(string \<times> json) list"

text \<open>The argument object of the payment processor's \<open>createPayment\<close>.\<close>

record create_payment =
  cp_sourceId :: string
  idempotencyKey :: string
  cp_amount :: real
  cp_currency :: string
  customerId :: "string option"
  receiptUrl :: bool
  statementDescriptionIdentifier :: string

text \<open>What a handler does to the outside world, in order: console output, the request
  to the geocoding service (address and key), the call of the payment processor and the
  operations on the store.\<close>

datatype effect =
    Console_warn string
  | Console_error string
  | Axios_get string string
  | Square_createPayment create_payment
  | Collection_deleteOne string
  | Collection_updateOne string

section \<open>Configuration\<close>

record coords =
  lat :: real
  lng :: real

record store_location = coords +
  address_of_store :: string

text \<open>The environment variables the modelled code reads. \<open>STORE_LAT\<close> and \<open>STORE_LNG\<close>
  hold the number \<open>parseFloat\<close> reads from the variable when it is set; a value that
  does not parse as a number is not modelled.\<close>

record env =
  GOOGLE_MAPS_API_KEY :: "string option"
  STORE_ADDRESS :: "string option"
  STORE_LAT :: "real option"
  STORE_LNG :: "real option"

definition STORE_LOCATION :: "env \<Rightarrow> store_location" where
  "STORE_LOCATION e =
     \<lparr> lat = (case STORE_LAT e of None \<Rightarrow> 35.8456 | Some v \<Rightarrow> v),
       lng = (case STORE_LNG e of None \<Rightarrow> - 103.3181 | Some v \<Rightarrow> v),
       address_of_store = (if truthy (STORE_ADDRESS e) then template (STORE_ADDRESS e)
                           else ''339873 E US 62 Meeker OK 74855'') \<rparr>"

record shipping_rates =
  baseRate :: real
  costPerMile :: real
  maxRate :: real
  freeShippingThreshold :: real

definition SHIPPING_RATES :: shipping_rates where
  "SHIPPING_RATES =
     \<lparr> baseRate = 5.00, costPerMile = 0.50, maxRate = 50.00, freeShippingThreshold = 150.00 \<rparr>"

section \<open>Distance and shipping cost\<close>

definition calculateDistance :: "real \<Rightarrow> real \<Rightarrow> real \<Rightarrow> real \<Rightarrow> number" where
  "calculateDistance lat1 lon1 lat2 lon2 =
     (let R = 3959;
          dLat = (lat2 - lat1) * pi / 180;
          dLon = (lon2 - lon1) * pi / 180;
          a = sin (dLat / 2) * sin (dLat / 2) +
              cos (lat1 * pi / 180) * cos (lat2 * pi / 180) *
              sin (dLon / 2) * sin (dLon / 2)
      in case Math_sqrt a of
           None \<Rightarrow> None
         | Some sa \<Rightarrow>
             (case Math_sqrt (1 - a) of
                None \<Rightarrow> None
              | Some sb \<Rightarrow> Some (R * (2 * Math_atan2 sa sb))))"

definition calculateShippingCost :: "number \<Rightarrow> number \<Rightarrow> number" where
  "calculateShippingCost distance subtotal =
     (if js_ge subtotal (Some (freeShippingThreshold SHIPPING_RATES)) then Some 0
      else
        let cost = map_option (\<lambda>d. baseRate SHIPPING_RATES + d * costPerMile SHIPPING_RATES) distance;
            cost = (if js_gt cost (Some (maxRate SHIPPING_RATES))
                    then Some (maxRate SHIPPING_RATES) else cost)
        in map_option (\<lambda>c. Math_round (c * 100) / 100) cost)"

section \<open>Double-precision arithmetic\<close>

text \<open>
  The pricing function is also modelled in the arithmetic of the program: IEEE 754
  binary64 with rounding to nearest, ties to even. A number is a finite double (given by
  its real value), an infinity or \<open>NaN\<close>; the sign of zero is not modelled (nothing in
  the modelled code observes it).
\<close>

datatype float64 = Num real | PosInf | NegInf | NaN

definition round_ties_even :: "real \<Rightarrow> int" where
  "round_ties_even x =
     (if x - of_int \<lfloor>x\<rfloor> < 1 / 2 then \<lfloor>x\<rfloor>
      else if 1 / 2 < x - of_int \<lfloor>x\<rfloor> then \<lfloor>x\<rfloor> + 1
      else if even \<lfloor>x\<rfloor> then \<lfloor>x\<rfloor> else \<lfloor>x\<rfloor> + 1)"

text \<open>The binary exponent of a real, not below that of the subnormal numbers, and the
  distance of neighbouring doubles at that exponent (53 significant bits).\<close>

definition exponent :: "real \<Rightarrow> int" where
  "exponent x = max \<lfloor>log 2 \<bar>x\<bar>\<rfloor> (- 1022)"

definition ulp :: "real \<Rightarrow> real" where
  "ulp x = 2 powr of_int (exponent x - 52)"

text \<open>The double nearest to a real: round at the exponent of the real, then overflow to
  an infinity when the rounded magnitude reaches \<open>2^1024\<close>, the overflow threshold.\<close>

definition overflow_threshold :: real where
  "overflow_threshold = 2 ^ 1024"

definition fl :: "real \<Rightarrow> float64" where
  "fl x =
     (if x = 0 then Num 0
      else
        let v = of_int (round_ties_even (x / ulp x)) * ulp x
        in if overflow_threshold \<le> v then PosInf
           else if v \<le> - overflow_threshold then NegInf
           else Num v)"








section \<open>Address resolution and the shipping quote\<close>

text \<open>The geocoding service is outside the program: \<open>service address key\<close> is what
  \<open>axios.get\<close> does for that query. A reply whose shape makes the property accesses of
  \<open>geocodeAddress\<close> throw counts as \<open>Geocode_throws\<close>; a well-formed reply lists the
  locations of its results, with numeric coordinates.\<close>

datatype geocode_reply = Geocode_throws string | Geocode_results "coords list"

definition geocodeAddress ::
  "env \<Rightarrow> (string \<Rightarrow> string \<Rightarrow> geocode_reply) \<Rightarrow> string \<Rightarrow> coords option \<times> effect list" where
  "geocodeAddress e service addr =
     (if \<not> truthy (GOOGLE_MAPS_API_KEY e)
      then (Some \<lparr> lat = 35.0, lng = - 97.0 \<rparr>,
            [Console_warn ''Google Maps API Key not set, using estimated coordinates''])
      else
        (case service addr (template (GOOGLE_MAPS_API_KEY e)) of
           Geocode_throws msg \<Rightarrow>
             (None, [Axios_get addr (template (GOOGLE_MAPS_API_KEY e)),
                     Console_error (''Geocoding error: '' @ msg)])
         | Geocode_results rs \<Rightarrow>
             (case rs of
                [] \<Rightarrow> (None, [Axios_get addr (template (GOOGLE_MAPS_API_KEY e))])
              | r # _ \<Rightarrow> (Some \<lparr> lat = lat r, lng = lng r \<rparr>,
                          [Axios_get addr (template (GOOGLE_MAPS_API_KEY e))]))))"

text \<open>The body of a request to \<open>POST /api/shipping/calculate\<close>, at the types of the
  data model: the address fields are strings and \<open>subtotal\<close> is a number, each absent
  (\<open>None\<close>) or present. Fields sent with another JSON type are not modelled, and the
  body is an object (the JSON middleware leaves an empty one when the request carries
  none).\<close>

record shipping_request =
  address :: "string option"
  city :: "string option"
  state :: "string option"
  zipCode :: "string option"
  country :: "string option"
  subtotal :: "real option"

text \<open>The handler's local constant \<open>fullAddress\<close>, a template literal over the fields. No
  modelled step of the handler throws, so its \<open>catch\<close> clause (status 500) has no branch
  in the model.\<close>

definition fullAddress :: "shipping_request \<Rightarrow> string" where
  "fullAddress req =
     template (address req) @ '', '' @ template (city req) @ '', '' @
     template (state req) @ '' '' @ template (zipCode req) @ '', '' @
     (if truthy (country req) then template (country req) else ''USA'')"

definition shipping_calculate ::
  "env \<Rightarrow> (string \<Rightarrow> string \<Rightarrow> geocode_reply) \<Rightarrow> shipping_request \<Rightarrow> response \<times> effect list" where
  "shipping_calculate e service req =
     (if \<not> truthy (address req) \<or> \<not> truthy (city req) \<or> \<not> truthy (state req) \<or>
         \<not> truthy (zipCode req)
      then (\<lparr> status = 400, body = [(''error'', JStr ''Incomplete shipping address'')] \<rparr>, [])
      else
        let (coords, effects) = geocodeAddress e service (fullAddress req)
        in case coords of
             None \<Rightarrow>
               (\<lparr> status = 400, body = [(''error'', JStr ''Unable to validate address'')] \<rparr>,
                effects)
           | Some c \<Rightarrow>
               let distance =
                     calculateDistance (lat (STORE_LOCATION e)) (lng (STORE_LOCATION e))
                       (lat c) (lng c);
                   shippingCost = calculateShippingCost distance (subtotal req)
               in (\<lparr> status = 200,
                     body =
                       [(''distance'',
                           json_of_number (map_option (\<lambda>d. Math_round (d * 10) / 10) distance)),
                        (''shippingCost'', json_of_number shippingCost),
                        (''message'',
                           JStr (if shippingCost = Some 0 then ''Free shipping!''
                                 else ''Shipping for '' @
                                      Number_toString (map_option Math_round distance) @
                                      '' miles''))] \<rparr>,
                   effects))"

section \<open>The document store\<close>

text \<open>A collection maps the \<open>_id\<close> of a document to its fields; a collection variable of
  the server is \<open>None\<close> until the store has connected. An \<open>ObjectId\<close> is modelled by its
  24 hexadecimal digits in lower case; \<open>ObjectId.isValid\<close> and the constructor are those
  of the driver for a string argument (24 hexadecimal characters: drivers before
  version 5 of the bson library also take any string of 12 bytes).\<close>

type_synonym objectid = string
type_synonym document = "string \<rightharpoonup> json"
type_synonym collection = "objectid \<rightharpoonup> document"

definition is_hex :: "char \<Rightarrow> bool" where
  "is_hex c = (c \<in> set ''0123456789abcdefABCDEF'')"

definition hex_lower :: "char \<Rightarrow> char" where
  "hex_lower c =
     (if c = CHR ''A'' then CHR ''a'' else if c = CHR ''B'' then CHR ''b''
      else if c = CHR ''C'' then CHR ''c'' else if c = CHR ''D'' then CHR ''d''
      else if c = CHR ''E'' then CHR ''e'' else if c = CHR ''F'' then CHR ''f'' else c)"

definition ObjectId_isValid :: "string \<Rightarrow> bool" where
  "ObjectId_isValid s = (length s = 24 \<and> list_all is_hex s)"

text \<open>\<open>new ObjectId(s)\<close>: \<open>Inl\<close> is the message of the error it throws.\<close>

definition ObjectId :: "string \<Rightarrow> string + objectid" where
  "ObjectId s =
     (if ObjectId_isValid s then Inr (map hex_lower s)
      else Inl ''input must be a 24 character hex string, 12 byte Uint8Array, or an integer'')"

text \<open>\<open>deleteOne({_id: oid})\<close> returns \<open>deletedCount\<close> and the collection after it;
  \<open>updateOne({_id: oid}, {$set: set_fields})\<close> returns the collection after it.\<close>

definition deleteOne :: "collection \<Rightarrow> objectid \<Rightarrow> nat \<times> collection" where
  "deleteOne coll oid = (case coll oid of None \<Rightarrow> (0, coll) | Some d \<Rightarrow> (1, coll(oid := None)))"

definition updateOne :: "collection \<Rightarrow> objectid \<Rightarrow> (string \<times> json) list \<Rightarrow> collection" where
  "updateOne coll oid set_fields =
     (case coll oid of None \<Rightarrow> coll | Some d \<Rightarrow> coll(oid \<mapsto> d ++ map_of set_fields))"

section \<open>Deleting a product\<close>

text \<open>\<open>fault\<close> is the message of the error with which the driver rejects the store
  operation, if it does; \<open>ident\<close> is the route parameter \<open>id\<close>.\<close>

definition delete_product ::
  "collection option \<Rightarrow> string option \<Rightarrow> string \<Rightarrow> response \<times> collection option \<times> effect list" where
  "delete_product productsCollection fault ident =
     (case productsCollection of
        None \<Rightarrow> (\<lparr> status = 503, body = [(''error'', JStr ''Database not connected'')] \<rparr>, None, [])
      | Some coll \<Rightarrow>
          if \<not> ObjectId_isValid ident
          then (\<lparr> status = 400, body = [(''error'', JStr ''Invalid product ID'')] \<rparr>, Some coll, [])
          else
            (case ObjectId ident of
               Inl msg \<Rightarrow> (\<lparr> status = 500, body = [(''error'', JStr msg)] \<rparr>, Some coll, [])
             | Inr oid \<Rightarrow>
                 (case fault of
                    Some msg \<Rightarrow>
                      (\<lparr> status = 500, body = [(''error'', JStr msg)] \<rparr>, Some coll,
                       [Collection_deleteOne oid])
                  | None \<Rightarrow>
                      let (deletedCount, coll') = deleteOne coll oid
                      in if deletedCount = 0
                         then (\<lparr> status = 404, body = [(''error'', JStr ''Product not found'')] \<rparr>,
                               Some coll', [Collection_deleteOne oid])
                         else (\<lparr> status = 200,
                                 body = [(''message'', JStr ''Product deleted successfully'')] \<rparr>,
                               Some coll', [Collection_deleteOne oid]))))"

section \<open>Payments\<close>

text \<open>The body of a request to \<open>POST /api/payments/square\<close>: strings and a numeric
  \<open>amount\<close>, each absent or present. The payment processor is outside the program:
  \<open>processor request\<close> is what \<open>createPayment\<close> does, either throwing or answering with
  the status and the id of the payment. An answer without a payment object makes the
  handler's property access throw, and counts as throwing. \<open>fault\<close> is the message of the
  error with which the driver rejects the update of the order, if it does, and \<open>now\<close> is
  the time of \<open>new Date()\<close>.\<close>

record payment_request =
  sourceId :: "string option"
  amount :: "real option"
  currency :: "string option"
  orderId :: "string option"
  customerEmail :: "string option"
  customerName :: "string option"

datatype payment_reply = Payment_throws string | Payment_result string string

definition payment_caught :: "string \<Rightarrow> response" where
  "payment_caught msg =
     \<lparr> status = 500,
       body = [(''success'', JBool False),
               (''error'', JStr (if msg \<noteq> [] then msg else ''Payment processing failed''))] \<rparr>"

text \<open>The argument of \<open>createPayment\<close>, from the three required fields and the rest of
  the body.\<close>

definition createPayment_request ::
  "string \<Rightarrow> real \<Rightarrow> string \<Rightarrow> payment_request \<Rightarrow> create_payment" where
  "createPayment_request sid amt ordId req =
     \<lparr> cp_sourceId = sid, idempotencyKey = ordId,
       cp_amount = Math_round (amt * 100),
       cp_currency = (if truthy (currency req) then template (currency req) else ''USD''),
       customerId = customerEmail req, receiptUrl = True,
       statementDescriptionIdentifier = ''LayerMonster'' \<rparr>"

definition payments_square ::
  "(create_payment \<Rightarrow> payment_reply) \<Rightarrow> collection option \<Rightarrow> string option \<Rightarrow> int \<Rightarrow>
   payment_request \<Rightarrow> response \<times> collection option \<times> effect list" where
  "payments_square processor ordersCollection fault now req =
     (case (sourceId req, amount req, orderId req) of
        (Some sid, Some amt, Some ordId) \<Rightarrow>
          if sid = [] \<or> amt = 0 \<or> ordId = []
          then (\<lparr> status = 400, body = [(''error'', JStr ''Missing required payment fields'')] \<rparr>,
                ordersCollection, [])
          else
            let request = createPayment_request sid amt ordId req
            in (case processor request of
                  Payment_throws msg \<Rightarrow>
                    (payment_caught msg, ordersCollection,
                     [Square_createPayment request, Console_error ''Payment error:''])
                | Payment_result pstatus pid \<Rightarrow>
                    if pstatus = ''COMPLETED'' \<or> pstatus = ''APPROVED''
                    then
                      (let ok = \<lparr> status = 200,
                                  body = [(''success'', JBool True), (''paymentId'', JStr pid),
                                          (''status'', JStr pstatus),
                                          (''message'', JStr ''Payment processed successfully'')] \<rparr>
                       in case ordersCollection of
                            None \<Rightarrow> (ok, None, [Square_createPayment request])
                          | Some coll \<Rightarrow>
                              (case ObjectId ordId of
                                 Inl msg \<Rightarrow>
                                   (payment_caught msg, Some coll,
                                    [Square_createPayment request, Console_error ''Payment error:''])
                               | Inr oid \<Rightarrow>
                                   (case fault of
                                      Some msg \<Rightarrow>
                                        (payment_caught msg, Some coll,
                                         [Square_createPayment request, Collection_updateOne oid,
                                          Console_error ''Payment error:''])
                                    | None \<Rightarrow>
                                        (ok,
                                         Some (updateOne coll oid
                                                 [(''paymentStatus'', JStr ''completed''),
                                                  (''paymentId'', JStr pid),
                                                  (''paymentMethod'', JStr ''square''),
                                                  (''updatedAt'', JDate now)]),
                                         [Square_createPayment request, Collection_updateOne oid]))))
                    else (\<lparr> status = 400,
                            body = [(''success'', JBool False),
                                    (''message'', JStr (''Payment '' @ pstatus))] \<rparr>,
                          ordersCollection, [Square_createPayment request]))
      | _ \<Rightarrow> (\<lparr> status = 400, body = [(''error'', JStr ''Missing required payment fields'')] \<rparr>,
              ordersCollection, []))"

section \<open>The specification's words\<close>

text \<open>Steps 2 and 3 of the pricing policy: base rate plus distance times cost per mile,
  capped at the maximum rate.\<close>

definition policy_cost :: "real \<Rightarrow> real" where
  "policy_cost d =
     (let cost = baseRate SHIPPING_RATES + d * costPerMile SHIPPING_RATES
      in if cost > maxRate SHIPPING_RATES then maxRate SHIPPING_RATES else cost)"


text \<open>The haversine formula as the specification writes it, on degrees.\<close>

definition radians :: "real \<Rightarrow> real" where
  "radians deg = deg * pi / 180"

definition haversine_a :: "real \<Rightarrow> real \<Rightarrow> real \<Rightarrow> real \<Rightarrow> real" where
  "haversine_a lat1 lon1 lat2 lon2 =
     (sin (radians (lat2 - lat1) / 2))\<^sup>2 +
     cos (radians lat1) * cos (radians lat2) * (sin (radians (lon2 - lon1) / 2))\<^sup>2"

definition haversine_miles :: "real \<Rightarrow> real \<Rightarrow> real \<Rightarrow> real \<Rightarrow> real" where
  "haversine_miles lat1 lon1 lat2 lon2 =
     2 * 3959 * Math_atan2 (sqrt (haversine_a lat1 lon1 lat2 lon2))
                           (sqrt (1 - haversine_a lat1 lon1 lat2 lon2))"

section \<open>Example inputs\<close>

text \<open>Concrete environments, collaborators and requests at which the theorems below are
  instantiated.\<close>

definition env_without_key :: env where
  "env_without_key =
     \<lparr> GOOGLE_MAPS_API_KEY = None, STORE_ADDRESS = None, STORE_LAT = None, STORE_LNG = None \<rparr>"

definition env_with_key :: env where
  "env_with_key =
     \<lparr> GOOGLE_MAPS_API_KEY = Some ''key'', STORE_ADDRESS = None, STORE_LAT = None,
       STORE_LNG = None \<rparr>"

definition service_no_results :: "string \<Rightarrow> string \<Rightarrow> geocode_reply" where
  "service_no_results addr key = Geocode_results []"

definition request_tulsa :: shipping_request where
  "request_tulsa =
     \<lparr> address = Some ''1 Main St'', city = Some ''Tulsa'', state = Some ''OK'',
       zipCode = Some ''74103'', country = None, subtotal = Some 20 \<rparr>"

definition products_example :: collection where
  "products_example = [''507f1f77bcf86cd799439011'' \<mapsto> [''name'' \<mapsto> JStr ''Vase'']]"

definition orders_example :: collection where
  "orders_example = [''507f191e810c19729de860ea'' \<mapsto> [''customerName'' \<mapsto> JStr ''Ada'']]"

definition payment_example :: payment_request where
  "payment_example =
     \<lparr> sourceId = Some ''cnon:card-nonce-ok'', amount = Some 25, currency = None,
       orderId = Some ''507f191e810c19729de860ea'', customerEmail = Some ''ada@example.com'',
       customerName = Some ''Ada'' \<rparr>"

definition processor_completed :: "create_payment \<Rightarrow> payment_reply" where
  "processor_completed request = Payment_result ''COMPLETED'' ''pay_1''"

definition processor_failed :: "create_payment \<Rightarrow> payment_reply" where
  "processor_failed request = Payment_result ''FAILED'' ''pay_2''"

definition processor_throws :: "create_payment \<Rightarrow> payment_reply" where
  "processor_throws request = Payment_throws ''Card declined''"

section \<open>Rounding and the pricing policy\<close>

lemma calculateShippingCost_Some:
  "calculateShippingCost (Some d) sub =
     (if js_ge sub (Some (freeShippingThreshold SHIPPING_RATES)) then Some 0
      else Some (Math_round (policy_cost d * 100) / 100))"
  by (simp add: calculateShippingCost_def policy_cost_def js_gt_def Let_def)

lemma policy_cost_range:
  assumes "0 \<le> d"
  shows "baseRate SHIPPING_RATES \<le> policy_cost d" and "policy_cost d \<le> maxRate SHIPPING_RATES"
  using assms by (simp_all add: policy_cost_def SHIPPING_RATES_def Let_def)

lemma Math_round_mono: "x \<le> y \<Longrightarrow> Math_round x \<le> Math_round y"
  by (simp add: Math_round_def floor_mono)

lemma Math_round_of_int: "Math_round (of_int k) = of_int k"
proof -
  have "\<lfloor>real_of_int k + 1 / 2\<rfloor> = k"
    by linarith
  then show ?thesis
    by (simp add: Math_round_def)
qed

lemma rounded_cost_range:
  assumes "0 \<le> d"
  shows "baseRate SHIPPING_RATES \<le> Math_round (policy_cost d * 100) / 100"
    and "Math_round (policy_cost d * 100) / 100 \<le> maxRate SHIPPING_RATES"
proof -
  have "Math_round (of_int 500) \<le> Math_round (policy_cost d * 100)"
    using policy_cost_range(1) [OF assms] by (intro Math_round_mono) (simp add: SHIPPING_RATES_def)
  then show "baseRate SHIPPING_RATES \<le> Math_round (policy_cost d * 100) / 100"
    unfolding Math_round_of_int by (simp add: SHIPPING_RATES_def)
  have "Math_round (policy_cost d * 100) \<le> Math_round (of_int 5000)"
    using policy_cost_range(2) [OF assms] by (intro Math_round_mono) (simp add: SHIPPING_RATES_def)
  then show "Math_round (policy_cost d * 100) / 100 \<le> maxRate SHIPPING_RATES"
    unfolding Math_round_of_int by (simp add: SHIPPING_RATES_def)
qed

section \<open>Rounding to the nearest double\<close>




lemma exponent_ge: "- 1022 \<le> exponent x"
  by (simp add: exponent_def)


lemma exponent_eq:
  assumes "2 powr of_int e \<le> \<bar>x\<bar>" and "\<bar>x\<bar> < 2 powr of_int (e + 1)" and "- 1022 \<le> e"
  shows "exponent x = e"
proof -
  have pos: "0 < \<bar>x\<bar>"
  proof -
    have "0 < (2::real) powr of_int e"
      by simp
    with assms(1) show ?thesis
      by linarith
  qed
  have "of_int e \<le> log 2 \<bar>x\<bar>"
    using assms(1) pos by (simp add: le_log_iff)
  moreover have "log 2 \<bar>x\<bar> < of_int (e + 1)"
    using assms(2) pos by (simp add: log_less_iff)
  ultimately have "\<lfloor>log 2 \<bar>x\<bar>\<rfloor> = e"
    by linarith
  with assms show ?thesis
    by (simp add: exponent_def)
qed











lemma fl_eval_large:
  assumes "2 ^ k \<le> \<bar>x\<bar>" and "\<bar>x\<bar> < 2 ^ Suc k" and "52 \<le> k"
  shows "fl x =
           (if overflow_threshold \<le> of_int (round_ties_even (x / 2 ^ (k - 52))) * 2 ^ (k - 52)
            then PosInf
            else if of_int (round_ties_even (x / 2 ^ (k - 52))) * 2 ^ (k - 52) \<le>
                    - overflow_threshold
            then NegInf
            else Num (of_int (round_ties_even (x / 2 ^ (k - 52))) * 2 ^ (k - 52)))"
proof -
  have nz: "x \<noteq> 0"
    using assms(1) by (smt (verit) zero_less_power abs_zero)
  have "(2::real) powr of_int (int k) = 2 ^ k" "(2::real) powr of_int (int k + 1) = 2 ^ Suc k"
    by (simp_all add: powr_realpow powr_add)
  then have "exponent x = int k"
    using assms by (intro exponent_eq) simp_all
  then have "real_of_int (exponent x - 52) = real (k - 52)"
    using assms(3) by simp
  then have "ulp x = 2 powr (real (k - 52))"
    by (simp only: ulp_def)
  then have u: "ulp x = 2 ^ (k - 52)"
    by (simp add: powr_realpow)
  show ?thesis
    using nz unfolding fl_def Let_def u by (simp only: if_False)
qed

section \<open>The shipping cost in double arithmetic\<close>















section \<open>The haversine distance\<close>

lemma abs_product_le_half_squares: "\<bar>x * y\<bar> \<le> (x\<^sup>2 + y\<^sup>2) / (2::real)"
proof -
  have "0 \<le> (\<bar>x\<bar> - \<bar>y\<bar>)\<^sup>2"
    by simp
  then have "2 * (\<bar>x\<bar> * \<bar>y\<bar>) \<le> x\<^sup>2 + y\<^sup>2"
    by (simp add: power2_diff)
  then show ?thesis
    by (simp add: abs_mult)
qed

lemma mixed_product_le_1:
  fixes p q t :: real
  assumes "\<bar>t\<bar> \<le> 1"
  shows "\<bar>t * (cos p * cos q) + sin p * sin q\<bar> \<le> 1"
proof -
  have "\<bar>t * (cos p * cos q)\<bar> = \<bar>t\<bar> * \<bar>cos p * cos q\<bar>"
    by (simp add: abs_mult)
  also have "\<dots> \<le> 1 * \<bar>cos p * cos q\<bar>"
    using assms by (intro mult_right_mono) auto
  finally have c: "\<bar>t * (cos p * cos q)\<bar> \<le> ((cos p)\<^sup>2 + (cos q)\<^sup>2) / 2"
    using abs_product_le_half_squares [of "cos p" "cos q"] by simp
  have s: "\<bar>sin p * sin q\<bar> \<le> ((sin p)\<^sup>2 + (sin q)\<^sup>2) / 2"
    by (rule abs_product_le_half_squares)
  have "\<bar>t * (cos p * cos q) + sin p * sin q\<bar> \<le>
      \<bar>t * (cos p * cos q)\<bar> + \<bar>sin p * sin q\<bar>"
    by (rule abs_triangle_ineq)
  also have "\<dots> \<le> ((cos p)\<^sup>2 + (cos q)\<^sup>2) / 2 + ((sin p)\<^sup>2 + (sin q)\<^sup>2) / 2"
    by (rule add_mono [OF c s])
  also have "\<dots> = 1"
    by (simp add: sin_squared_eq field_simps)
  finally show ?thesis .
qed

text \<open>The quantity \<open>a\<close> is half of one minus the cosine of the central angle (the
  spherical law of cosines), hence between 0 and 1 for all inputs in exact arithmetic.
  The program computes \<open>a\<close> in doubles and does not clamp it: for two nearly antipodal
  points the computed \<open>a\<close> can exceed 1 by a rounding error, and \<open>Math.sqrt (1 - a)\<close> is
  then \<open>NaN\<close>. The lemmas of this section are about the exact-arithmetic reading and do
  not cover that case.\<close>

lemma haversine_a_law_of_cosines:
  "haversine_a lat1 lon1 lat2 lon2 =
     (1 - (cos (radians (lon2 - lon1)) * (cos (radians lat1) * cos (radians lat2)) +
           sin (radians lat1) * sin (radians lat2))) / 2"
proof -
  have half: "(sin (x / 2))\<^sup>2 = (1 - cos x) / 2" for x :: real
    using cos_double_sin [of "x / 2"] by simp
  have diff: "cos (radians (lat2 - lat1)) =
      cos (radians lat1) * cos (radians lat2) + sin (radians lat1) * sin (radians lat2)"
  proof -
    have "radians (lat2 - lat1) = radians lat2 - radians lat1"
      by (simp add: radians_def field_simps)
    then show ?thesis
      by (simp add: cos_diff)
  qed
  show ?thesis
    unfolding haversine_a_def half diff by (simp add: field_simps)
qed

lemma haversine_a_bounds:
  "0 \<le> haversine_a lat1 lon1 lat2 lon2" "haversine_a lat1 lon1 lat2 lon2 \<le> 1"
proof -
  have "\<bar>cos (radians (lon2 - lon1))\<bar> \<le> 1"
    by simp
  from mixed_product_le_1 [OF this, of "radians lat1" "radians lat2"]
  show "0 \<le> haversine_a lat1 lon1 lat2 lon2" "haversine_a lat1 lon1 lat2 lon2 \<le> 1"
    unfolding haversine_a_law_of_cosines by (simp_all add: abs_le_iff)
qed

lemma calculateDistance_a:
  "sin ((lat2 - lat1) * pi / 180 / 2) * sin ((lat2 - lat1) * pi / 180 / 2) +
   cos (lat1 * pi / 180) * cos (lat2 * pi / 180) *
   sin ((lon2 - lon1) * pi / 180 / 2) * sin ((lon2 - lon1) * pi / 180 / 2) =
   haversine_a lat1 lon1 lat2 lon2"
  by (simp add: haversine_a_def radians_def power2_eq_square)

lemma calculateDistance_haversine:
  "calculateDistance lat1 lon1 lat2 lon2 = Some (haversine_miles lat1 lon1 lat2 lon2)"
  using haversine_a_bounds [of lat1 lon1 lat2 lon2]
  unfolding calculateDistance_def Let_def calculateDistance_a haversine_miles_def
  by (simp add: Math_sqrt_def)

lemma Math_atan2_nonneg: "0 \<le> y \<Longrightarrow> 0 \<le> x \<Longrightarrow> 0 \<le> Math_atan2 y x"
  by (simp add: Math_atan2_def)

lemma haversine_miles_nonneg: "0 \<le> haversine_miles lat1 lon1 lat2 lon2"
  using haversine_a_bounds [of lat1 lon1 lat2 lon2]
  by (simp add: haversine_miles_def Math_atan2_nonneg)




section \<open>The shipping quote handler\<close>

lemma shipping_calculate_incomplete:
  assumes "\<not> truthy (address req) \<or> \<not> truthy (city req) \<or> \<not> truthy (state req) \<or>
           \<not> truthy (zipCode req)"
  shows "shipping_calculate e service req =
           (\<lparr> status = 400, body = [(''error'', JStr ''Incomplete shipping address'')] \<rparr>, [])"
  using assms unfolding shipping_calculate_def by (simp only: if_True)

lemma shipping_calculate_unresolved:
  assumes "truthy (address req)" "truthy (city req)" "truthy (state req)" "truthy (zipCode req)"
    and "fst (geocodeAddress e service (fullAddress req)) = None"
  shows "shipping_calculate e service req =
           (\<lparr> status = 400, body = [(''error'', JStr ''Unable to validate address'')] \<rparr>,
            snd (geocodeAddress e service (fullAddress req)))"
  using assms unfolding shipping_calculate_def
  by (cases "geocodeAddress e service (fullAddress req)") simp

lemma shipping_calculate_quote:
  assumes "truthy (address req)" "truthy (city req)" "truthy (state req)" "truthy (zipCode req)"
    and "fst (geocodeAddress e service (fullAddress req)) = Some c"
    and "d = haversine_miles (lat (STORE_LOCATION e)) (lng (STORE_LOCATION e)) (lat c) (lng c)"
  shows "shipping_calculate e service req =
           (\<lparr> status = 200,
              body =
                [(''distance'', JNum (Math_round (d * 10) / 10)),
                 (''shippingCost'', json_of_number (calculateShippingCost (Some d) (subtotal req))),
                 (''message'',
                    JStr (if calculateShippingCost (Some d) (subtotal req) = Some 0
                          then ''Free shipping!''
                          else ''Shipping for '' @ Number_toString (Some (Math_round d)) @
                               '' miles''))] \<rparr>,
            snd (geocodeAddress e service (fullAddress req)))"
  using assms unfolding shipping_calculate_def
  by (cases "geocodeAddress e service (fullAddress req)")
    (simp add: Let_def calculateDistance_haversine json_of_number_def)

lemma shipping_calculate_200:
  assumes "status (fst (shipping_calculate e service req)) = 200"
  obtains c where "truthy (address req)" "truthy (city req)" "truthy (state req)"
    "truthy (zipCode req)" "fst (geocodeAddress e service (fullAddress req)) = Some c"
proof -
  have complete: "truthy (address req) \<and> truthy (city req) \<and> truthy (state req) \<and>
      truthy (zipCode req)"
  proof (rule ccontr)
    assume "\<not> ?thesis"
    then have "\<not> truthy (address req) \<or> \<not> truthy (city req) \<or> \<not> truthy (state req) \<or>
        \<not> truthy (zipCode req)"
      by blast
    from shipping_calculate_incomplete [OF this] assms show False
      by simp
  qed
  have "fst (geocodeAddress e service (fullAddress req)) \<noteq> None"
  proof
    assume "fst (geocodeAddress e service (fullAddress req)) = None"
    with complete shipping_calculate_unresolved [of req e service] assms show False
      by simp
  qed
  with complete that show ?thesis
    by blast
qed

lemma geocodeAddress_leaves_effect: "snd (geocodeAddress e service addr) \<noteq> []"
  by (simp add: geocodeAddress_def split: geocode_reply.splits list.splits)

lemma geocodeAddress_fallback:
  "\<not> truthy (GOOGLE_MAPS_API_KEY e) \<Longrightarrow>
     fst (geocodeAddress e service addr) = Some \<lparr> lat = 35, lng = - 97 \<rparr>"
  by (simp add: geocodeAddress_def)

lemma geocodeAddress_no_results:
  "truthy (GOOGLE_MAPS_API_KEY e) \<Longrightarrow>
     service addr (template (GOOGLE_MAPS_API_KEY e)) = Geocode_results [] \<Longrightarrow>
     fst (geocodeAddress e service addr) = None"
  by (simp add: geocodeAddress_def)

lemma geocodeAddress_throws:
  "truthy (GOOGLE_MAPS_API_KEY e) \<Longrightarrow>
     service addr (template (GOOGLE_MAPS_API_KEY e)) = Geocode_throws msg \<Longrightarrow>
     fst (geocodeAddress e service addr) = None"
  by (simp add: geocodeAddress_def)

text \<open>
  Claim C5. A request to \<open>POST /api/shipping/calculate\<close> in which one of the four
  required address fields is missing is answered 400 without geocoding: the handler
  leaves no effect at all, whereas every call of \<open>geocodeAddress\<close> leaves one. A request
  with a complete address that geocoding does not resolve (in particular when the key is
  set and the service returns no result) is answered 400 with the distinct error
  "Unable to validate address", and no quote is computed.
\<close>

theorem shipping_calculate_rejections:
  "(address req = None \<or> city req = None \<or> state req = None \<or> zipCode req = None \<longrightarrow>
      shipping_calculate e service req =
        (\<lparr> status = 400, body = [(''error'', JStr ''Incomplete shipping address'')] \<rparr>, [])) \<and>
   snd (geocodeAddress e service addr) \<noteq> [] \<and>
   (truthy (address req) \<and> truthy (city req) \<and> truthy (state req) \<and> truthy (zipCode req) \<and>
    fst (geocodeAddress e service (fullAddress req)) = None \<longrightarrow>
      fst (shipping_calculate e service req) =
        \<lparr> status = 400, body = [(''error'', JStr ''Unable to validate address'')] \<rparr>) \<and>
   (truthy (address req) \<and> truthy (city req) \<and> truthy (state req) \<and> truthy (zipCode req) \<and>
    truthy (GOOGLE_MAPS_API_KEY e) \<and>
    service (fullAddress req) (template (GOOGLE_MAPS_API_KEY e)) = Geocode_results [] \<longrightarrow>
      fst (shipping_calculate e service req) =
        \<lparr> status = 400, body = [(''error'', JStr ''Unable to validate address'')] \<rparr>)"
proof (intro conjI impI)
  assume "address req = None \<or> city req = None \<or> state req = None \<or> zipCode req = None"
  then have "\<not> truthy (address req) \<or> \<not> truthy (city req) \<or> \<not> truthy (state req) \<or>
      \<not> truthy (zipCode req)"
    by (auto simp: truthy_def)
  then show "shipping_calculate e service req =
      (\<lparr> status = 400, body = [(''error'', JStr ''Incomplete shipping address'')] \<rparr>, [])"
    by (rule shipping_calculate_incomplete)
next
  show "snd (geocodeAddress e service addr) \<noteq> []"
    by (rule geocodeAddress_leaves_effect)
next
  assume "truthy (address req) \<and> truthy (city req) \<and> truthy (state req) \<and>
      truthy (zipCode req) \<and> fst (geocodeAddress e service (fullAddress req)) = None"
  then show "fst (shipping_calculate e service req) =
      \<lparr> status = 400, body = [(''error'', JStr ''Unable to validate address'')] \<rparr>"
    by (simp add: shipping_calculate_unresolved)
next
  assume "truthy (address req) \<and> truthy (city req) \<and> truthy (state req) \<and>
      truthy (zipCode req) \<and> truthy (GOOGLE_MAPS_API_KEY e) \<and>
      service (fullAddress req) (template (GOOGLE_MAPS_API_KEY e)) = Geocode_results []"
  then show "fst (shipping_calculate e service req) =
      \<lparr> status = 400, body = [(''error'', JStr ''Unable to validate address'')] \<rparr>"
    by (simp add: shipping_calculate_unresolved geocodeAddress_no_results)
qed

theorem shipping_calculate_rejections_witness:
  "zipCode (request_tulsa\<lparr>zipCode := None\<rparr>) = None \<and>
   shipping_calculate env_with_key service_no_results (request_tulsa\<lparr>zipCode := None\<rparr>) =
     (\<lparr> status = 400, body = [(''error'', JStr ''Incomplete shipping address'')] \<rparr>, []) \<and>
   truthy (address request_tulsa) \<and> truthy (city request_tulsa) \<and>
   truthy (state request_tulsa) \<and> truthy (zipCode request_tulsa) \<and>
   truthy (GOOGLE_MAPS_API_KEY env_with_key) \<and>
   fst (geocodeAddress env_with_key service_no_results (fullAddress request_tulsa)) = None \<and>
   fst (shipping_calculate env_with_key service_no_results request_tulsa) =
     \<lparr> status = 400, body = [(''error'', JStr ''Unable to validate address'')] \<rparr>"
proof -
  have missing: "zipCode (request_tulsa\<lparr>zipCode := None\<rparr>) = None"
    by simp
  have complete: "truthy (address request_tulsa)" "truthy (city request_tulsa)"
    "truthy (state request_tulsa)" "truthy (zipCode request_tulsa)"
    by (simp_all add: request_tulsa_def truthy_def)
  have key: "truthy (GOOGLE_MAPS_API_KEY env_with_key)"
    by (simp add: env_with_key_def truthy_def)
  have unresolved:
    "fst (geocodeAddress env_with_key service_no_results (fullAddress request_tulsa)) = None"
    using key by (simp add: geocodeAddress_def service_no_results_def)
  show ?thesis
    using missing complete key unresolved
      shipping_calculate_rejections [of "request_tulsa\<lparr>zipCode := None\<rparr>" env_with_key
        service_no_results "[]"]
      shipping_calculate_rejections [of request_tulsa env_with_key service_no_results "[]"]
    by blast
qed

lemma shipping_cost_zero_iff:
  assumes "0 \<le> d"
  shows "calculateShippingCost (Some d) sub = Some 0 \<longleftrightarrow>
         js_ge sub (Some (freeShippingThreshold SHIPPING_RATES))"
proof -
  have "Math_round (policy_cost d * 100) / 100 \<noteq> 0"
    using rounded_cost_range(1) [OF assms] by (simp add: SHIPPING_RATES_def)
  then show ?thesis
    by (simp add: calculateShippingCost_Some)
qed

lemma shipping_cost_range:
  assumes "0 \<le> d"
  obtains c where "calculateShippingCost (Some d) sub = Some c"
    and "c = 0 \<or> baseRate SHIPPING_RATES \<le> c" and "0 \<le> c" and "c \<le> maxRate SHIPPING_RATES"
    and "c * 100 \<in> \<int>"
proof (cases "js_ge sub (Some (freeShippingThreshold SHIPPING_RATES))")
  case True
  then have "calculateShippingCost (Some d) sub = Some 0"
    by (simp add: calculateShippingCost_Some)
  then show ?thesis
    using that [of 0] by (simp add: SHIPPING_RATES_def)
next
  case False
  let ?c = "Math_round (policy_cost d * 100) / 100"
  from False have "calculateShippingCost (Some d) sub = Some ?c"
    by (simp add: calculateShippingCost_Some)
  moreover have "baseRate SHIPPING_RATES \<le> ?c" "?c \<le> maxRate SHIPPING_RATES"
    using rounded_cost_range [OF assms] by simp_all
  moreover from \<open>baseRate SHIPPING_RATES \<le> ?c\<close> have "0 \<le> ?c"
    by (simp add: SHIPPING_RATES_def)
  moreover have "?c * 100 \<in> \<int>"
    by (simp add: Math_round_def)
  ultimately show ?thesis
    using that [of ?c] by blast
qed

lemma request_tulsa_quoted:
  "status (fst (shipping_calculate env_without_key service_no_results
     (request_tulsa\<lparr>subtotal := sub\<rparr>))) = 200"
proof -
  have complete: "truthy (address (request_tulsa\<lparr>subtotal := sub\<rparr>))"
    "truthy (city (request_tulsa\<lparr>subtotal := sub\<rparr>))"
    "truthy (state (request_tulsa\<lparr>subtotal := sub\<rparr>))"
    "truthy (zipCode (request_tulsa\<lparr>subtotal := sub\<rparr>))"
    by (simp_all add: request_tulsa_def truthy_def)
  have "\<not> truthy (GOOGLE_MAPS_API_KEY env_without_key)"
    by (simp add: env_without_key_def truthy_def)
  from geocodeAddress_fallback [OF this]
  have resolved: "fst (geocodeAddress env_without_key service_no_results
      (fullAddress (request_tulsa\<lparr>subtotal := sub\<rparr>))) = Some \<lparr> lat = 35, lng = - 97 \<rparr>" .
  show ?thesis
    by (simp add: shipping_calculate_quote [OF complete resolved refl])
qed

text \<open>
  Claim C9. For every distance \<open>d\<close> that is at least 0 and every subtotal \<open>s\<close>, the
  shipping cost is 0 exactly when \<open>s\<close> reaches the free-shipping threshold (an absent
  subtotal never does), and the cost is never strictly between 0 and the base rate; so
  a quote carries the message "Free shipping!" exactly when the subtotal of the request
  reaches the threshold.
\<close>

theorem free_shipping_exactly_at_threshold:
  "(0 \<le> d \<longrightarrow>
      (calculateShippingCost (Some d) (Some s) = Some 0 \<longleftrightarrow>
         freeShippingThreshold SHIPPING_RATES \<le> s) \<and>
      calculateShippingCost (Some d) None \<noteq> Some 0 \<and>
      (\<exists>c. calculateShippingCost (Some d) sub = Some c \<and>
           \<not> (0 < c \<and> c < baseRate SHIPPING_RATES))) \<and>
   (status (fst (shipping_calculate e service req)) = 200 \<longrightarrow>
      (map_of (body (fst (shipping_calculate e service req))) ''message'' =
         Some (JStr ''Free shipping!'') \<longleftrightarrow>
       js_ge (subtotal req) (Some (freeShippingThreshold SHIPPING_RATES))))"
proof (intro conjI impI)
  assume "0 \<le> d"
  then show "calculateShippingCost (Some d) (Some s) = Some 0 \<longleftrightarrow>
      freeShippingThreshold SHIPPING_RATES \<le> s"
    by (simp add: shipping_cost_zero_iff js_ge_def)
next
  assume "0 \<le> d"
  then show "calculateShippingCost (Some d) None \<noteq> Some 0"
    by (simp add: shipping_cost_zero_iff js_ge_def)
next
  assume "0 \<le> d"
  then obtain c where "calculateShippingCost (Some d) sub = Some c"
    "c = 0 \<or> baseRate SHIPPING_RATES \<le> c"
    by (rule shipping_cost_range)
  then show "\<exists>c. calculateShippingCost (Some d) sub = Some c \<and>
      \<not> (0 < c \<and> c < baseRate SHIPPING_RATES)"
    by auto
next
  assume "status (fst (shipping_calculate e service req)) = 200"
  then obtain p where complete: "truthy (address req)" "truthy (city req)"
      "truthy (state req)" "truthy (zipCode req)"
    and resolved: "fst (geocodeAddress e service (fullAddress req)) = Some p"
    by (rule shipping_calculate_200)
  define dist where
    "dist = haversine_miles (lat (STORE_LOCATION e)) (lng (STORE_LOCATION e)) (lat p) (lng p)"
  have "0 \<le> dist"
    unfolding dist_def by (rule haversine_miles_nonneg)
  then have zero: "calculateShippingCost (Some dist) (subtotal req) = Some 0 \<longleftrightarrow>
      js_ge (subtotal req) (Some (freeShippingThreshold SHIPPING_RATES))"
    by (rule shipping_cost_zero_iff)
  show "map_of (body (fst (shipping_calculate e service req))) ''message'' =
      Some (JStr ''Free shipping!'') \<longleftrightarrow>
      js_ge (subtotal req) (Some (freeShippingThreshold SHIPPING_RATES))"
    unfolding zero [symmetric]
    by (simp add: shipping_calculate_quote [OF complete resolved dist_def])
qed

theorem free_shipping_exactly_at_threshold_witness:
  "(0::real) \<le> 10 \<and>
   calculateShippingCost (Some 10) (Some 150) = Some 0 \<and>
   calculateShippingCost (Some 10) (Some 149.99) \<noteq> Some 0 \<and>
   calculateShippingCost (Some 10) None \<noteq> Some 0 \<and>
   status (fst (shipping_calculate env_without_key service_no_results
     (request_tulsa\<lparr>subtotal := Some 200\<rparr>))) = 200 \<and>
   map_of (body (fst (shipping_calculate env_without_key service_no_results
     (request_tulsa\<lparr>subtotal := Some 200\<rparr>)))) ''message'' = Some (JStr ''Free shipping!'') \<and>
   status (fst (shipping_calculate env_without_key service_no_results request_tulsa)) = 200 \<and>
   map_of (body (fst (shipping_calculate env_without_key service_no_results request_tulsa)))
     ''message'' \<noteq> Some (JStr ''Free shipping!'')"
proof -
  have d: "(0::real) \<le> 10"
    by simp
  have at: "freeShippingThreshold SHIPPING_RATES \<le> 150"
    and below: "\<not> freeShippingThreshold SHIPPING_RATES \<le> 149.99"
    by (simp_all add: SHIPPING_RATES_def)
  have free: "js_ge (subtotal (request_tulsa\<lparr>subtotal := Some 200\<rparr>))
      (Some (freeShippingThreshold SHIPPING_RATES))"
    by (simp add: js_ge_def SHIPPING_RATES_def)
  have paid: "\<not> js_ge (subtotal request_tulsa) (Some (freeShippingThreshold SHIPPING_RATES))"
    by (simp add: js_ge_def SHIPPING_RATES_def request_tulsa_def)
  have ok_free: "status (fst (shipping_calculate env_without_key service_no_results
      (request_tulsa\<lparr>subtotal := Some 200\<rparr>))) = 200"
    by (rule request_tulsa_quoted)
  have ok_paid: "status (fst (shipping_calculate env_without_key service_no_results
      request_tulsa)) = 200"
    using request_tulsa_quoted [of "subtotal request_tulsa"] by simp
  show ?thesis
    using d at below free paid ok_free ok_paid
      free_shipping_exactly_at_threshold [of 10 150]
      free_shipping_exactly_at_threshold [of 10 "149.99"]
      free_shipping_exactly_at_threshold [of 10 0 "None" env_without_key service_no_results
        "request_tulsa\<lparr>subtotal := Some 200\<rparr>"]
      free_shipping_exactly_at_threshold [of 10 0 "None" env_without_key service_no_results
        request_tulsa]
    by blast
qed




section \<open>Deleting a product\<close>

lemma ObjectId_valid: "ObjectId_isValid s \<Longrightarrow> ObjectId s = Inr (map hex_lower s)"
  by (simp add: ObjectId_def)

lemma ObjectId_Inr: "ObjectId s = Inr oid \<Longrightarrow> ObjectId_isValid s"
  by (simp add: ObjectId_def split: if_splits)

lemma delete_product_not_connected:
  "delete_product None fault ident =
     (\<lparr> status = 503, body = [(''error'', JStr ''Database not connected'')] \<rparr>, None, [])"
  by (simp add: delete_product_def)

lemma delete_product_invalid:
  "\<not> ObjectId_isValid ident \<Longrightarrow>
   delete_product (Some coll) fault ident =
     (\<lparr> status = 400, body = [(''error'', JStr ''Invalid product ID'')] \<rparr>, Some coll, [])"
  by (simp add: delete_product_def)

lemma delete_product_absent:
  "ObjectId ident = Inr oid \<Longrightarrow> coll oid = None \<Longrightarrow>
   delete_product (Some coll) None ident =
     (\<lparr> status = 404, body = [(''error'', JStr ''Product not found'')] \<rparr>, Some coll,
      [Collection_deleteOne oid])"
  by (frule ObjectId_Inr) (simp add: delete_product_def deleteOne_def)

lemma delete_product_present:
  "ObjectId ident = Inr oid \<Longrightarrow> coll oid = Some doc \<Longrightarrow>
   delete_product (Some coll) None ident =
     (\<lparr> status = 200, body = [(''message'', JStr ''Product deleted successfully'')] \<rparr>,
      Some (coll(oid := None)), [Collection_deleteOne oid])"
  by (frule ObjectId_Inr) (simp add: delete_product_def deleteOne_def)

lemma delete_product_fault:
  "ObjectId ident = Inr oid \<Longrightarrow>
   delete_product (Some coll) (Some msg) ident =
     (\<lparr> status = 500, body = [(''error'', JStr msg)] \<rparr>, Some coll, [Collection_deleteOne oid])"
  by (frule ObjectId_Inr) (simp add: delete_product_def)

text \<open>
  Claim C8, as stated, fails: while the store is not connected, a request to delete a
  product with a syntactically invalid id is answered 503, not 400.
\<close>

theorem delete_product_counterexample:
  "\<not> ObjectId_isValid ''not-an-id'' \<and>
   delete_product None None ''not-an-id'' =
     (\<lparr> status = 503, body = [(''error'', JStr ''Database not connected'')] \<rparr>, None, [])"
  by (simp add: delete_product_def ObjectId_isValid_def)

text \<open>
  Claim C8, amended. For every request to \<open>DELETE /api/products/:id\<close> while the store
  is connected: a syntactically invalid id is answered 400 without any store operation,
  the store unchanged; a well-formed id of no product is answered 404, the store
  unchanged; a well-formed id of a product deletes that product and is answered 200 with
  a message, unless the store operation fails, which is answered 500. While the store is
  not connected every request is answered 503.
\<close>

theorem delete_product_outcomes:
  "delete_product None fault ident =
     (\<lparr> status = 503, body = [(''error'', JStr ''Database not connected'')] \<rparr>, None, []) \<and>
   (\<not> ObjectId_isValid ident \<longrightarrow>
      delete_product (Some coll) fault ident =
        (\<lparr> status = 400, body = [(''error'', JStr ''Invalid product ID'')] \<rparr>, Some coll, [])) \<and>
   (ObjectId_isValid ident \<longrightarrow> ObjectId ident = Inr (map hex_lower ident)) \<and>
   (ObjectId ident = Inr oid \<and> coll oid = None \<longrightarrow>
      delete_product (Some coll) None ident =
        (\<lparr> status = 404, body = [(''error'', JStr ''Product not found'')] \<rparr>, Some coll,
         [Collection_deleteOne oid])) \<and>
   (ObjectId ident = Inr oid \<and> coll oid = Some doc \<longrightarrow>
      delete_product (Some coll) None ident =
        (\<lparr> status = 200, body = [(''message'', JStr ''Product deleted successfully'')] \<rparr>,
         Some (coll(oid := None)), [Collection_deleteOne oid])) \<and>
   (ObjectId ident = Inr oid \<longrightarrow>
      delete_product (Some coll) (Some msg) ident =
        (\<lparr> status = 500, body = [(''error'', JStr msg)] \<rparr>, Some coll,
         [Collection_deleteOne oid]))"
  by (simp add: delete_product_not_connected delete_product_invalid ObjectId_valid
      delete_product_absent delete_product_present delete_product_fault)

theorem delete_product_outcomes_witness:
  "\<not> ObjectId_isValid ''not-an-id'' \<and>
   delete_product (Some products_example) None ''not-an-id'' =
     (\<lparr> status = 400, body = [(''error'', JStr ''Invalid product ID'')] \<rparr>,
      Some products_example, []) \<and>
   ObjectId ''507F1F77BCF86CD799439011'' = Inr ''507f1f77bcf86cd799439011'' \<and>
   products_example ''507f1f77bcf86cd799439011'' = Some [''name'' \<mapsto> JStr ''Vase''] \<and>
   delete_product (Some products_example) None ''507F1F77BCF86CD799439011'' =
     (\<lparr> status = 200, body = [(''message'', JStr ''Product deleted successfully'')] \<rparr>,
      Some (products_example(''507f1f77bcf86cd799439011'' := None)),
      [Collection_deleteOne ''507f1f77bcf86cd799439011'']) \<and>
   ObjectId ''507f1f77bcf86cd799439012'' = Inr ''507f1f77bcf86cd799439012'' \<and>
   products_example ''507f1f77bcf86cd799439012'' = None \<and>
   delete_product (Some products_example) None ''507f1f77bcf86cd799439012'' =
     (\<lparr> status = 404, body = [(''error'', JStr ''Product not found'')] \<rparr>,
      Some products_example, [Collection_deleteOne ''507f1f77bcf86cd799439012''])"
proof -
  have invalid: "\<not> ObjectId_isValid ''not-an-id''"
    by (simp add: ObjectId_isValid_def)
  have upper: "ObjectId ''507F1F77BCF86CD799439011'' = Inr ''507f1f77bcf86cd799439011''"
    by (simp add: ObjectId_def ObjectId_isValid_def is_hex_def hex_lower_def)
  have other: "ObjectId ''507f1f77bcf86cd799439012'' = Inr ''507f1f77bcf86cd799439012''"
    by (simp add: ObjectId_def ObjectId_isValid_def is_hex_def hex_lower_def)
  have present: "products_example ''507f1f77bcf86cd799439011'' = Some [''name'' \<mapsto> JStr ''Vase'']"
    by (simp add: products_example_def)
  have absent: "products_example ''507f1f77bcf86cd799439012'' = None"
    by (simp add: products_example_def)
  show ?thesis
    using invalid upper other present absent
      delete_product_outcomes [of None "''not-an-id''" products_example]
      delete_product_outcomes [of None "''507F1F77BCF86CD799439011''" products_example
        "''507f1f77bcf86cd799439011''" "[''name'' \<mapsto> JStr ''Vase'']"]
      delete_product_outcomes [of None "''507f1f77bcf86cd799439012''" products_example
        "''507f1f77bcf86cd799439012''"]
    by blast
qed

section \<open>Payments\<close>

lemma payments_square_missing:
  assumes "\<not> truthy (sourceId req) \<or> amount req = None \<or> amount req = Some 0 \<or>
           \<not> truthy (orderId req)"
  shows "payments_square processor orders fault now req =
           (\<lparr> status = 400, body = [(''error'', JStr ''Missing required payment fields'')] \<rparr>,
            orders, [])"
  using assms unfolding payments_square_def truthy_def
  by (auto split: option.splits)

lemma payments_square_throws:
  assumes "sourceId req = Some sid" "sid \<noteq> []" "amount req = Some amt" "amt \<noteq> 0"
    "orderId req = Some ordId" "ordId \<noteq> []"
    and "processor (createPayment_request sid amt ordId req) = Payment_throws msg"
  shows "payments_square processor orders fault now req =
           (payment_caught msg, orders,
            [Square_createPayment (createPayment_request sid amt ordId req),
             Console_error ''Payment error:''])"
  using assms unfolding payments_square_def by simp

lemma payments_square_not_completed:
  assumes "sourceId req = Some sid" "sid \<noteq> []" "amount req = Some amt" "amt \<noteq> 0"
    "orderId req = Some ordId" "ordId \<noteq> []"
    and "processor (createPayment_request sid amt ordId req) = Payment_result pstatus pid"
    and "pstatus \<noteq> ''COMPLETED''" "pstatus \<noteq> ''APPROVED''"
  shows "payments_square processor orders fault now req =
           (\<lparr> status = 400,
              body = [(''success'', JBool False), (''message'', JStr (''Payment '' @ pstatus))] \<rparr>,
            orders, [Square_createPayment (createPayment_request sid amt ordId req)])"
  using assms unfolding payments_square_def by simp

lemma payments_square_completed:
  assumes "sourceId req = Some sid" "sid \<noteq> []" "amount req = Some amt" "amt \<noteq> 0"
    "orderId req = Some ordId" "ordId \<noteq> []"
    and "processor (createPayment_request sid amt ordId req) = Payment_result pstatus pid"
    and "pstatus = ''COMPLETED'' \<or> pstatus = ''APPROVED''"
    and "ObjectId ordId = Inr oid" "coll oid = Some doc"
  shows "payments_square processor (Some coll) None now req =
           (\<lparr> status = 200,
              body = [(''success'', JBool True), (''paymentId'', JStr pid),
                      (''status'', JStr pstatus),
                      (''message'', JStr ''Payment processed successfully'')] \<rparr>,
            Some (coll(oid \<mapsto> doc ++ map_of [(''paymentStatus'', JStr ''completed''),
                                            (''paymentId'', JStr pid),
                                            (''paymentMethod'', JStr ''square''),
                                            (''updatedAt'', JDate now)])),
            [Square_createPayment (createPayment_request sid amt ordId req),
             Collection_updateOne oid])"
  using assms unfolding payments_square_def by (auto simp: updateOne_def Let_def)

lemma payments_square_store_changed:
  assumes "fst (snd (payments_square processor orders fault now req)) \<noteq> orders"
  shows "\<exists>sid amt ordId pstatus pid.
           sourceId req = Some sid \<and> amount req = Some amt \<and> orderId req = Some ordId \<and>
           processor (createPayment_request sid amt ordId req) = Payment_result pstatus pid \<and>
           (pstatus = ''COMPLETED'' \<or> pstatus = ''APPROVED'')"
  using assms unfolding payments_square_def
  by (auto simp: Let_def split: option.splits if_splits payment_reply.splits sum.splits)

text \<open>
  Claim C6, as stated, fails: a request to \<open>POST /api/payments/square\<close> that lacks a
  required field is answered 400 with an \<open>error\<close> field only; the body carries no
  \<open>success\<close> field.
\<close>

theorem payments_square_counterexample:
  "sourceId (payment_example\<lparr>sourceId := None\<rparr>) = None \<and>
   payments_square processor_completed (Some orders_example) None 0
       (payment_example\<lparr>sourceId := None\<rparr>) =
     (\<lparr> status = 400, body = [(''error'', JStr ''Missing required payment fields'')] \<rparr>,
      Some orders_example, []) \<and>
   map_of (body (fst (payments_square processor_completed (Some orders_example) None 0
       (payment_example\<lparr>sourceId := None\<rparr>)))) ''success'' = None"
  by (simp add: payments_square_def payment_example_def)

text \<open>
  Claim C6, amended. For every request to \<open>POST /api/payments/square\<close>: when a required
  field is missing the response is 400 with an error message, the processor is not called
  and the stored orders are unchanged; when the processor throws the response is 500 with
  \<open>success: false\<close> and the orders are unchanged; when the payment comes back with a
  status other than COMPLETED or APPROVED the response is 400 with \<open>success: false\<close> and
  the orders are unchanged. The stored orders change only when the payment came back
  COMPLETED or APPROVED, and then the order of that id receives the payment information.
\<close>

theorem payments_square_outcomes:
  "(\<not> truthy (sourceId req) \<or> amount req = None \<or> amount req = Some 0 \<or>
    \<not> truthy (orderId req) \<longrightarrow>
      payments_square processor orders fault now req =
        (\<lparr> status = 400, body = [(''error'', JStr ''Missing required payment fields'')] \<rparr>,
         orders, [])) \<and>
   (sourceId req = Some sid \<and> sid \<noteq> [] \<and> amount req = Some amt \<and> amt \<noteq> 0 \<and>
    orderId req = Some ordId \<and> ordId \<noteq> [] \<longrightarrow>
      (processor (createPayment_request sid amt ordId req) = Payment_throws msg \<longrightarrow>
         payments_square processor orders fault now req =
           (\<lparr> status = 500,
              body = [(''success'', JBool False),
                      (''error'', JStr (if msg \<noteq> [] then msg
                                        else ''Payment processing failed''))] \<rparr>,
            orders,
            [Square_createPayment (createPayment_request sid amt ordId req),
             Console_error ''Payment error:''])) \<and>
      (processor (createPayment_request sid amt ordId req) = Payment_result pstatus pid \<and>
       pstatus \<noteq> ''COMPLETED'' \<and> pstatus \<noteq> ''APPROVED'' \<longrightarrow>
         payments_square processor orders fault now req =
           (\<lparr> status = 400,
              body = [(''success'', JBool False),
                      (''message'', JStr (''Payment '' @ pstatus))] \<rparr>,
            orders, [Square_createPayment (createPayment_request sid amt ordId req)])) \<and>
      (processor (createPayment_request sid amt ordId req) = Payment_result pstatus pid \<and>
       (pstatus = ''COMPLETED'' \<or> pstatus = ''APPROVED'') \<and>
       ObjectId ordId = Inr oid \<and> coll oid = Some doc \<longrightarrow>
         payments_square processor (Some coll) None now req =
           (\<lparr> status = 200,
              body = [(''success'', JBool True), (''paymentId'', JStr pid),
                      (''status'', JStr pstatus),
                      (''message'', JStr ''Payment processed successfully'')] \<rparr>,
            Some (coll(oid \<mapsto> doc ++ map_of [(''paymentStatus'', JStr ''completed''),
                                            (''paymentId'', JStr pid),
                                            (''paymentMethod'', JStr ''square''),
                                            (''updatedAt'', JDate now)])),
            [Square_createPayment (createPayment_request sid amt ordId req),
             Collection_updateOne oid]))) \<and>
   (fst (snd (payments_square processor orders fault now req)) \<noteq> orders \<longrightarrow>
      (\<exists>sid amt ordId pstatus pid.
          sourceId req = Some sid \<and> amount req = Some amt \<and> orderId req = Some ordId \<and>
          processor (createPayment_request sid amt ordId req) = Payment_result pstatus pid \<and>
          (pstatus = ''COMPLETED'' \<or> pstatus = ''APPROVED'')))"
proof (intro conjI impI)
  assume "\<not> truthy (sourceId req) \<or> amount req = None \<or> amount req = Some 0 \<or>
      \<not> truthy (orderId req)"
  then show "payments_square processor orders fault now req =
      (\<lparr> status = 400, body = [(''error'', JStr ''Missing required payment fields'')] \<rparr>,
       orders, [])"
    by (rule payments_square_missing)
next
  assume "sourceId req = Some sid \<and> sid \<noteq> [] \<and> amount req = Some amt \<and> amt \<noteq> 0 \<and>
      orderId req = Some ordId \<and> ordId \<noteq> []"
    and "processor (createPayment_request sid amt ordId req) = Payment_throws msg"
  then show "payments_square processor orders fault now req =
      (\<lparr> status = 500,
         body = [(''success'', JBool False),
                 (''error'', JStr (if msg \<noteq> [] then msg else ''Payment processing failed''))] \<rparr>,
       orders,
       [Square_createPayment (createPayment_request sid amt ordId req),
        Console_error ''Payment error:''])"
    by (simp add: payments_square_throws payment_caught_def)
next
  assume "sourceId req = Some sid \<and> sid \<noteq> [] \<and> amount req = Some amt \<and> amt \<noteq> 0 \<and>
      orderId req = Some ordId \<and> ordId \<noteq> []"
    and "processor (createPayment_request sid amt ordId req) = Payment_result pstatus pid \<and>
      pstatus \<noteq> ''COMPLETED'' \<and> pstatus \<noteq> ''APPROVED''"
  then show "payments_square processor orders fault now req =
      (\<lparr> status = 400,
         body = [(''success'', JBool False), (''message'', JStr (''Payment '' @ pstatus))] \<rparr>,
       orders, [Square_createPayment (createPayment_request sid amt ordId req)])"
    by (simp add: payments_square_not_completed)
next
  assume "sourceId req = Some sid \<and> sid \<noteq> [] \<and> amount req = Some amt \<and> amt \<noteq> 0 \<and>
      orderId req = Some ordId \<and> ordId \<noteq> []"
    and "processor (createPayment_request sid amt ordId req) = Payment_result pstatus pid \<and>
      (pstatus = ''COMPLETED'' \<or> pstatus = ''APPROVED'') \<and>
      ObjectId ordId = Inr oid \<and> coll oid = Some doc"
  then show "payments_square processor (Some coll) None now req =
      (\<lparr> status = 200,
         body = [(''success'', JBool True), (''paymentId'', JStr pid),
                 (''status'', JStr pstatus),
                 (''message'', JStr ''Payment processed successfully'')] \<rparr>,
       Some (coll(oid \<mapsto> doc ++ map_of [(''paymentStatus'', JStr ''completed''),
                                       (''paymentId'', JStr pid),
                                       (''paymentMethod'', JStr ''square''),
                                       (''updatedAt'', JDate now)])),
       [Square_createPayment (createPayment_request sid amt ordId req),
        Collection_updateOne oid])"
    by (intro payments_square_completed) simp_all
next
  assume "fst (snd (payments_square processor orders fault now req)) \<noteq> orders"
  then show "\<exists>sid amt ordId pstatus pid.
      sourceId req = Some sid \<and> amount req = Some amt \<and> orderId req = Some ordId \<and>
      processor (createPayment_request sid amt ordId req) = Payment_result pstatus pid \<and>
      (pstatus = ''COMPLETED'' \<or> pstatus = ''APPROVED'')"
    by (rule payments_square_store_changed)
qed

theorem payments_square_outcomes_witness:
  "amount (payment_example\<lparr>amount := None\<rparr>) = None \<and>
   payments_square processor_completed (Some orders_example) None 0
       (payment_example\<lparr>amount := None\<rparr>) =
     (\<lparr> status = 400, body = [(''error'', JStr ''Missing required payment fields'')] \<rparr>,
      Some orders_example, []) \<and>
   processor_throws (createPayment_request ''cnon:card-nonce-ok'' 25
       ''507f191e810c19729de860ea'' payment_example) = Payment_throws ''Card declined'' \<and>
   payments_square processor_throws (Some orders_example) None 0 payment_example =
     (\<lparr> status = 500,
        body = [(''success'', JBool False), (''error'', JStr ''Card declined'')] \<rparr>,
      Some orders_example,
      [Square_createPayment (createPayment_request ''cnon:card-nonce-ok'' 25
         ''507f191e810c19729de860ea'' payment_example),
       Console_error ''Payment error:'']) \<and>
   processor_failed (createPayment_request ''cnon:card-nonce-ok'' 25
       ''507f191e810c19729de860ea'' payment_example) = Payment_result ''FAILED'' ''pay_2'' \<and>
   payments_square processor_failed (Some orders_example) None 0 payment_example =
     (\<lparr> status = 400,
        body = [(''success'', JBool False), (''message'', JStr ''Payment FAILED'')] \<rparr>,
      Some orders_example,
      [Square_createPayment (createPayment_request ''cnon:card-nonce-ok'' 25
         ''507f191e810c19729de860ea'' payment_example)]) \<and>
   processor_completed (createPayment_request ''cnon:card-nonce-ok'' 25
       ''507f191e810c19729de860ea'' payment_example) = Payment_result ''COMPLETED'' ''pay_1'' \<and>
   fst (snd (payments_square processor_completed (Some orders_example) None 0 payment_example)) =
     Some (orders_example(''507f191e810c19729de860ea'' \<mapsto>
        [''customerName'' \<mapsto> JStr ''Ada''] ++
        map_of [(''paymentStatus'', JStr ''completed''), (''paymentId'', JStr ''pay_1''),
                (''paymentMethod'', JStr ''square''), (''updatedAt'', JDate 0)])) \<and>
   fst (snd (payments_square processor_completed (Some orders_example) None 0 payment_example)) \<noteq>
     Some orders_example"
proof -
  let ?sid = "''cnon:card-nonce-ok''" and ?oid = "''507f191e810c19729de860ea''"
  let ?doc = "[''customerName'' \<mapsto> JStr ''Ada'']"
  let ?doc' = "?doc ++ map_of [(''paymentStatus'', JStr ''completed''),
      (''paymentId'', JStr ''pay_1''), (''paymentMethod'', JStr ''square''),
      (''updatedAt'', JDate 0)]"
  have missing: "amount (payment_example\<lparr>amount := None\<rparr>) = None"
    by simp
  have fields: "sourceId payment_example = Some ?sid \<and> ?sid \<noteq> [] \<and>
      amount payment_example = Some 25 \<and> (25::real) \<noteq> 0 \<and>
      orderId payment_example = Some ?oid \<and> ?oid \<noteq> []"
    by (simp add: payment_example_def)
  have throws: "processor_throws (createPayment_request ?sid 25 ?oid payment_example) =
      Payment_throws ''Card declined''"
    by (simp add: processor_throws_def)
  have failed: "processor_failed (createPayment_request ?sid 25 ?oid payment_example) =
      Payment_result ''FAILED'' ''pay_2'' \<and> ''FAILED'' \<noteq> ''COMPLETED'' \<and>
      ''FAILED'' \<noteq> ''APPROVED''"
    by (simp add: processor_failed_def)
  have completed: "processor_completed (createPayment_request ?sid 25 ?oid payment_example) =
      Payment_result ''COMPLETED'' ''pay_1'' \<and>
      (''COMPLETED'' = ''COMPLETED'' \<or> ''COMPLETED'' = ''APPROVED'') \<and>
      ObjectId ?oid = Inr ?oid \<and> orders_example ?oid = Some ?doc"
    by (simp add: processor_completed_def ObjectId_def ObjectId_isValid_def is_hex_def
        hex_lower_def orders_example_def)
  have declined: "payments_square processor_throws (Some orders_example) None 0 payment_example =
      (\<lparr> status = 500,
         body = [(''success'', JBool False), (''error'', JStr ''Card declined'')] \<rparr>,
       Some orders_example,
       [Square_createPayment (createPayment_request ?sid 25 ?oid payment_example),
        Console_error ''Payment error:''])"
    using fields throws
      payments_square_outcomes [where req = payment_example and sid = ?sid and amt = 25
        and ordId = ?oid and processor = processor_throws and msg = "''Card declined''"
        and orders = "Some orders_example" and fault = None and now = 0]
    by simp
  have refused: "payments_square processor_failed (Some orders_example) None 0 payment_example =
      (\<lparr> status = 400,
         body = [(''success'', JBool False), (''message'', JStr ''Payment FAILED'')] \<rparr>,
       Some orders_example,
       [Square_createPayment (createPayment_request ?sid 25 ?oid payment_example)])"
    using fields failed
      payments_square_outcomes [where req = payment_example and sid = ?sid and amt = 25
        and ordId = ?oid and processor = processor_failed and orders = "Some orders_example"
        and fault = None and now = 0 and pstatus = "''FAILED''" and pid = "''pay_2''"]
    by simp
  have paid: "payments_square processor_completed (Some orders_example) None 0 payment_example =
      (\<lparr> status = 200,
         body = [(''success'', JBool True), (''paymentId'', JStr ''pay_1''),
                 (''status'', JStr ''COMPLETED''),
                 (''message'', JStr ''Payment processed successfully'')] \<rparr>,
       Some (orders_example(?oid \<mapsto> ?doc')),
       [Square_createPayment (createPayment_request ?sid 25 ?oid payment_example),
        Collection_updateOne ?oid])"
    using fields completed
      payments_square_outcomes [where req = payment_example and sid = ?sid and amt = 25
        and ordId = ?oid and processor = processor_completed and now = 0
        and pstatus = "''COMPLETED''" and pid = "''pay_1''" and oid = ?oid
        and coll = orders_example and doc = ?doc]
    by blast
  have changed: "orders_example(?oid \<mapsto> ?doc') \<noteq> orders_example"
  proof
    assume "orders_example(?oid \<mapsto> ?doc') = orders_example"
    then have "(orders_example(?oid \<mapsto> ?doc')) ?oid = orders_example ?oid"
      by simp
    then have "?doc' = ?doc"
      by (simp add: orders_example_def)
    then have "?doc' ''paymentStatus'' = ?doc ''paymentStatus''"
      by simp
    then show False
      by simp
  qed
  have incomplete: "payments_square processor_completed (Some orders_example) None 0
      (payment_example\<lparr>amount := None\<rparr>) =
      (\<lparr> status = 400, body = [(''error'', JStr ''Missing required payment fields'')] \<rparr>,
       Some orders_example, [])"
    using missing
      payments_square_outcomes [where req = "payment_example\<lparr>amount := None\<rparr>"
        and processor = processor_completed and orders = "Some orders_example"
        and fault = None and now = 0]
    by blast
  show ?thesis
    using missing incomplete throws declined failed refused completed paid changed
    by simp
qed

section \<open>The distance of the fallback coordinate\<close>

text \<open>Numerical bounds, by Taylor polynomials with remainder and the monotonicity of sine
  and cosine.\<close>

lemma cos_Maclaurin_bound:
  fixes x :: real
  assumes "0 < x" and "0 < n"
  shows "\<bar>cos x - (\<Sum>m<n. cos_coeff m * x ^ m)\<bar> \<le> x ^ n / fact n"
proof -
  from Maclaurin_cos_expansion2 [OF assms] obtain t where
    t: "cos x = (\<Sum>m<n. cos_coeff m * x ^ m) + (cos (t + 1 / 2 * real n * pi) / fact n) * x ^ n"
    by blast
  have "\<bar>(cos (t + 1 / 2 * real n * pi) / fact n) * x ^ n\<bar> =
      \<bar>cos (t + 1 / 2 * real n * pi)\<bar> * (x ^ n / fact n)"
    using assms by (simp add: abs_mult)
  also have "\<dots> \<le> 1 * (x ^ n / fact n)"
    using assms by (intro mult_right_mono) simp_all
  finally show ?thesis
    unfolding t by simp
qed

lemma cos_degree6:
  fixes x :: real
  assumes "0 < x"
  shows "1 - x\<^sup>2 / 2 + x ^ 4 / 24 - x ^ 6 / 720 - x ^ 8 / 40320 \<le> cos x"
    and "cos x \<le> 1 - x\<^sup>2 / 2 + x ^ 4 / 24 - x ^ 6 / 720 + x ^ 8 / 40320"
proof -
  have sum: "(\<Sum>m<8. cos_coeff m * x ^ m) = 1 - x\<^sup>2 / 2 + x ^ 4 / 24 - x ^ 6 / 720"
    by (simp add: lessThan_nat_numeral cos_coeff_def fact_numeral)
  have "\<bar>cos x - (1 - x\<^sup>2 / 2 + x ^ 4 / 24 - x ^ 6 / 720)\<bar> \<le> x ^ 8 / 40320"
    using cos_Maclaurin_bound [OF assms, of 8] unfolding sum by (simp add: fact_numeral)
  then show "1 - x\<^sup>2 / 2 + x ^ 4 / 24 - x ^ 6 / 720 - x ^ 8 / 40320 \<le> cos x"
    and "cos x \<le> 1 - x\<^sup>2 / 2 + x ^ 4 / 24 - x ^ 6 / 720 + x ^ 8 / 40320"
    by linarith+
qed

lemma cos_degree8:
  fixes x :: real
  assumes "0 < x"
  shows "1 - x\<^sup>2 / 2 + x ^ 4 / 24 - x ^ 6 / 720 + x ^ 8 / 40320 - x ^ 10 / 3628800 \<le> cos x"
    and "cos x \<le> 1 - x\<^sup>2 / 2 + x ^ 4 / 24 - x ^ 6 / 720 + x ^ 8 / 40320 + x ^ 10 / 3628800"
proof -
  have sum: "(\<Sum>m<10. cos_coeff m * x ^ m) =
      1 - x\<^sup>2 / 2 + x ^ 4 / 24 - x ^ 6 / 720 + x ^ 8 / 40320"
    by (simp add: lessThan_nat_numeral cos_coeff_def fact_numeral)
  have "\<bar>cos x - (1 - x\<^sup>2 / 2 + x ^ 4 / 24 - x ^ 6 / 720 + x ^ 8 / 40320)\<bar> \<le>
      x ^ 10 / 3628800"
    using cos_Maclaurin_bound [OF assms, of 10] unfolding sum by (simp add: fact_numeral)
  then show
    "1 - x\<^sup>2 / 2 + x ^ 4 / 24 - x ^ 6 / 720 + x ^ 8 / 40320 - x ^ 10 / 3628800 \<le> cos x"
    and "cos x \<le> 1 - x\<^sup>2 / 2 + x ^ 4 / 24 - x ^ 6 / 720 + x ^ 8 / 40320 + x ^ 10 / 3628800"
    by linarith+
qed

lemma sin_degree3:
  fixes x :: real
  assumes "0 \<le> x"
  shows "x - x ^ 3 / 6 - x ^ 5 / 120 \<le> sin x" and "sin x \<le> x - x ^ 3 / 6 + x ^ 5 / 120"
proof -
  have sum: "(\<Sum>m<5. sin_coeff m * x ^ m) = x - x ^ 3 / 6"
    by (simp add: lessThan_nat_numeral sin_coeff_def fact_numeral)
  have rest: "inverse (fact 5) * \<bar>x\<bar> ^ 5 = x ^ 5 / 120"
    using assms by (simp add: fact_numeral)
  have "\<bar>sin x - (x - x ^ 3 / 6)\<bar> \<le> x ^ 5 / 120"
    using Maclaurin_sin_bound [of x 5] unfolding sum rest .
  then show "x - x ^ 3 / 6 - x ^ 5 / 120 \<le> sin x" and "sin x \<le> x - x ^ 3 / 6 + x ^ 5 / 120"
    by linarith+
qed

lemma pi_gt_3141: "3.141 < pi"
proof -
  have "0 < cos (1.5705::real)"
    using cos_degree8(1) [of "1.5705::real"] by (simp add: power_divide)
  have "1.5705 < pi / 2"
  proof (rule ccontr)
    assume "\<not> 1.5705 < pi / 2"
    then have "pi / 2 \<le> 1.5705"
      by simp
    moreover have "(1.5705::real) \<le> pi"
      using pi_ge_two by simp
    ultimately have "cos 1.5705 \<le> cos (pi / 2)"
      by (intro cos_monotone_0_pi_le) simp_all
    with \<open>0 < cos 1.5705\<close> show False
      by simp
  qed
  then show ?thesis
    by simp
qed

lemma pi_lt_3142: "pi < 3.142"
proof -
  have neg: "cos (1.571::real) < 0"
    using cos_degree8(2) [of "1.571::real"] by (simp add: power_divide)
  have "pi / 2 < 1.571"
  proof (rule ccontr)
    assume "\<not> pi / 2 < 1.571"
    then have "1.571 \<le> pi / 2"
      by simp
    then have "0 \<le> cos (1.571::real)"
      by (intro cos_ge_zero) simp_all
    with neg show False
      by simp
  qed
  then show ?thesis
    by simp
qed

lemma cos_between:
  fixes x lo hi :: real
  assumes "0 < lo" "lo \<le> x" "x \<le> hi" "hi \<le> 3"
  shows "1 - hi\<^sup>2 / 2 + hi ^ 4 / 24 - hi ^ 6 / 720 - hi ^ 8 / 40320 \<le> cos x"
    and "cos x \<le> 1 - lo\<^sup>2 / 2 + lo ^ 4 / 24 - lo ^ 6 / 720 + lo ^ 8 / 40320"
proof -
  have "hi \<le> pi"
    using assms pi_gt_3141 by simp
  have "cos hi \<le> cos x"
    using assms \<open>hi \<le> pi\<close> by (intro cos_monotone_0_pi_le) simp_all
  moreover have "1 - hi\<^sup>2 / 2 + hi ^ 4 / 24 - hi ^ 6 / 720 - hi ^ 8 / 40320 \<le> cos hi"
    using assms by (intro cos_degree6) simp
  ultimately show "1 - hi\<^sup>2 / 2 + hi ^ 4 / 24 - hi ^ 6 / 720 - hi ^ 8 / 40320 \<le> cos x"
    by simp
  have "cos x \<le> cos lo"
    using assms \<open>hi \<le> pi\<close> by (intro cos_monotone_0_pi_le) simp_all
  moreover have "cos lo \<le> 1 - lo\<^sup>2 / 2 + lo ^ 4 / 24 - lo ^ 6 / 720 + lo ^ 8 / 40320"
    using assms by (intro cos_degree6) simp
  ultimately show "cos x \<le> 1 - lo\<^sup>2 / 2 + lo ^ 4 / 24 - lo ^ 6 / 720 + lo ^ 8 / 40320"
    by simp
qed

lemma sin_between:
  fixes x lo hi :: real
  assumes "0 \<le> lo" "lo \<le> x" "x \<le> hi" "hi \<le> 3 / 2"
  shows "lo - lo ^ 3 / 6 - lo ^ 5 / 120 \<le> sin x"
    and "sin x \<le> hi - hi ^ 3 / 6 + hi ^ 5 / 120"
proof -
  have half: "hi \<le> pi / 2"
    using assms pi_gt_3141 by simp
  have "sin lo \<le> sin x"
    using assms half by (intro sin_monotone_2pi_le) simp_all
  moreover have "lo - lo ^ 3 / 6 - lo ^ 5 / 120 \<le> sin lo"
    using assms by (intro sin_degree3) simp
  ultimately show "lo - lo ^ 3 / 6 - lo ^ 5 / 120 \<le> sin x"
    by simp
  have "sin x \<le> sin hi"
    using assms half by (intro sin_monotone_2pi_le) simp_all
  moreover have "sin hi \<le> hi - hi ^ 3 / 6 + hi ^ 5 / 120"
    using assms by (intro sin_degree3) simp
  ultimately show "sin x \<le> hi - hi ^ 3 / 6 + hi ^ 5 / 120"
    by simp
qed

lemma pi_half_gt_3_2: "3 / 2 < pi / 2"
  using pi_gt_3141 by simp

lemma haversine_angle_lower:
  assumes "0 \<le> \<theta>" "\<theta> < pi / 2" "(sin \<theta>)\<^sup>2 < a" "a < 1"
  shows "\<theta> < Math_atan2 (sqrt a) (sqrt (1 - a))"
proof -
  have pos: "0 < sqrt (1 - a)"
    using assms by simp
  have c: "0 < cos \<theta>"
    using assms by (intro cos_gt_zero_pi) simp_all
  have s: "0 \<le> sin \<theta>"
    using assms by (intro sin_ge_zero) simp_all
  have y: "sin \<theta> < sqrt a"
    using assms by (intro real_less_rsqrt)
  have "1 - a < (cos \<theta>)\<^sup>2"
    using assms by (simp add: cos_squared_eq)
  then have x: "sqrt (1 - a) < cos \<theta>"
    using c by (intro real_less_lsqrt) simp_all
  have "sin \<theta> / cos \<theta> < sqrt a / sqrt (1 - a)"
    using s y pos x by (intro frac_less) simp_all
  then have "arctan (tan \<theta>) < arctan (sqrt a / sqrt (1 - a))"
    by (simp add: arctan_less_iff tan_def)
  moreover have "arctan (tan \<theta>) = \<theta>"
    using assms by (intro arctan_tan) simp_all
  ultimately show ?thesis
    using pos by (simp add: Math_atan2_def)
qed

lemma haversine_angle_upper:
  assumes "0 \<le> \<theta>" "\<theta> < pi / 2" "0 \<le> a" "a < (sin \<theta>)\<^sup>2"
  shows "Math_atan2 (sqrt a) (sqrt (1 - a)) < \<theta>"
proof -
  have "(sin \<theta>)\<^sup>2 \<le> 1"
    by (simp add: abs_square_le_1)
  with assms have "a < 1"
    by simp
  then have pos: "0 < sqrt (1 - a)"
    by simp
  have c: "0 < cos \<theta>"
    using assms by (intro cos_gt_zero_pi) simp_all
  have s: "0 \<le> sin \<theta>"
    using assms by (intro sin_ge_zero) simp_all
  have y: "sqrt a < sin \<theta>"
    using assms s by (intro real_less_lsqrt) simp_all
  have "(cos \<theta>)\<^sup>2 < 1 - a"
    using assms by (simp add: cos_squared_eq)
  then have x: "cos \<theta> < sqrt (1 - a)"
    by (intro real_less_rsqrt)
  have "sqrt a / sqrt (1 - a) < sin \<theta> / cos \<theta>"
    using assms y c x by (intro frac_less) simp_all
  then have "arctan (sqrt a / sqrt (1 - a)) < arctan (tan \<theta>)"
    by (simp add: arctan_less_iff tan_def)
  moreover have "arctan (tan \<theta>) = \<theta>"
    using assms by (intro arctan_tan) simp_all
  ultimately show ?thesis
    using pos by (simp add: Math_atan2_def)
qed

text \<open>The four trigonometric values of the distance from the default store location to
  the fallback coordinate, to four significant digits.\<close>

lemma cos_store_latitude:
  "0.8105 \<le> cos (35.8456 * pi / 180)" "cos (35.8456 * pi / 180) \<le> 0.8107"
proof -
  have range: "(0.6255::real) \<le> 35.8456 * pi / 180" "35.8456 * pi / 180 \<le> (0.62571::real)"
    using pi_gt_3141 pi_lt_3142 by simp_all
  have "(0.8105::real) \<le> 1 - 0.62571\<^sup>2 / 2 + 0.62571 ^ 4 / 24 - 0.62571 ^ 6 / 720 -
      0.62571 ^ 8 / 40320"
    by (simp add: power_divide)
  also have "\<dots> \<le> cos (35.8456 * pi / 180)"
    using range by (intro cos_between(1) [of "0.6255"]) simp_all
  finally show "0.8105 \<le> cos (35.8456 * pi / 180)" .
  have "cos (35.8456 * pi / 180) \<le> 1 - 0.6255\<^sup>2 / 2 + 0.6255 ^ 4 / 24 - 0.6255 ^ 6 / 720 +
      0.6255 ^ 8 / 40320"
    using range by (intro cos_between(2) [of _ _ "0.62571"]) simp_all
  also have "\<dots> \<le> (0.8107::real)"
    by (simp add: power_divide)
  finally show "cos (35.8456 * pi / 180) \<le> 0.8107" .
qed

lemma cos_fallback_latitude:
  "0.8191 \<le> cos (35 * pi / 180)" "cos (35 * pi / 180) \<le> 0.8193"
proof -
  have range: "(0.61075::real) \<le> 35 * pi / 180" "35 * pi / 180 \<le> (0.61095::real)"
    using pi_gt_3141 pi_lt_3142 by simp_all
  have "(0.8191::real) \<le> 1 - 0.61095\<^sup>2 / 2 + 0.61095 ^ 4 / 24 - 0.61095 ^ 6 / 720 -
      0.61095 ^ 8 / 40320"
    by (simp add: power_divide)
  also have "\<dots> \<le> cos (35 * pi / 180)"
    using range by (intro cos_between(1) [of "0.61075"]) simp_all
  finally show "0.8191 \<le> cos (35 * pi / 180)" .
  have "cos (35 * pi / 180) \<le> 1 - 0.61075\<^sup>2 / 2 + 0.61075 ^ 4 / 24 - 0.61075 ^ 6 / 720 +
      0.61075 ^ 8 / 40320"
    using range by (intro cos_between(2) [of _ _ "0.61095"]) simp_all
  also have "\<dots> \<le> (0.8193::real)"
    by (simp add: power_divide)
  finally show "cos (35 * pi / 180) \<le> 0.8193" .
qed

lemma sin_half_longitude_difference:
  "0.05509 \<le> sin (6.3181 * pi / 360)" "sin (6.3181 * pi / 360) \<le> 0.05512"
proof -
  have range: "(0.055125::real) \<le> 6.3181 * pi / 360" "6.3181 * pi / 360 \<le> (0.055144::real)"
    using pi_gt_3141 pi_lt_3142 by simp_all
  have "(0.05509::real) \<le> 0.055125 - 0.055125 ^ 3 / 6 - 0.055125 ^ 5 / 120"
    by (simp add: power_divide)
  also have "\<dots> \<le> sin (6.3181 * pi / 360)"
    using range by (intro sin_between(1) [of _ _ "0.055144"]) simp_all
  finally show "0.05509 \<le> sin (6.3181 * pi / 360)" .
  have "sin (6.3181 * pi / 360) \<le> 0.055144 - 0.055144 ^ 3 / 6 + 0.055144 ^ 5 / 120"
    using range by (intro sin_between(2) [of "0.055125"]) simp_all
  also have "\<dots> \<le> (0.05512::real)"
    by (simp add: power_divide)
  finally show "sin (6.3181 * pi / 360) \<le> 0.05512" .
qed

lemma sin_half_latitude_difference:
  "0.00737 \<le> sin (0.8456 * pi / 360)" "sin (0.8456 * pi / 360) \<le> 0.00739"
proof -
  have range: "(0.007377::real) \<le> 0.8456 * pi / 360" "0.8456 * pi / 360 \<le> (0.007381::real)"
    using pi_gt_3141 pi_lt_3142 by simp_all
  have "(0.00737::real) \<le> 0.007377 - 0.007377 ^ 3 / 6 - 0.007377 ^ 5 / 120"
    by (simp add: power_divide)
  also have "\<dots> \<le> sin (0.8456 * pi / 360)"
    using range by (intro sin_between(1) [of _ _ "0.007381"]) simp_all
  finally show "0.00737 \<le> sin (0.8456 * pi / 360)" .
  have "sin (0.8456 * pi / 360) \<le> 0.007381 - 0.007381 ^ 3 / 6 + 0.007381 ^ 5 / 120"
    using range by (intro sin_between(2) [of "0.007377"]) simp_all
  also have "\<dots> \<le> (0.00739::real)"
    by (simp add: power_divide)
  finally show "sin (0.8456 * pi / 360) \<le> 0.00739" .
qed

lemma fallback_haversine_a:
  "haversine_a 35.8456 (- 103.3181) 35 (- 97) =
     (sin (0.8456 * pi / 360))\<^sup>2 +
     cos (35.8456 * pi / 180) * cos (35 * pi / 180) * (sin (6.3181 * pi / 360))\<^sup>2"
proof -
  have lat: "radians (35 - 35.8456) / 2 = - (0.8456 * pi / 360)"
    by (simp add: radians_def)
  have lon: "radians (- 97 - - 103.3181) / 2 = 6.3181 * pi / 360"
    by (simp add: radians_def)
  show ?thesis
    unfolding haversine_a_def lat lon by (simp add: radians_def)
qed

lemma haversine_a_interval:
  fixes s1 s2 c1 c2 :: real
  assumes "0 \<le> s1l" "s1l \<le> s1" "s1 \<le> s1u"
    and "0 \<le> s2l" "s2l \<le> s2" "s2 \<le> s2u"
    and "0 \<le> c1l" "c1l \<le> c1" "c1 \<le> c1u"
    and "0 \<le> c2l" "c2l \<le> c2" "c2 \<le> c2u"
  shows "s1l\<^sup>2 + c1l * c2l * s2l\<^sup>2 \<le> s1\<^sup>2 + c1 * c2 * s2\<^sup>2"
    and "s1\<^sup>2 + c1 * c2 * s2\<^sup>2 \<le> s1u\<^sup>2 + c1u * c2u * s2u\<^sup>2"
proof -
  have nonneg: "0 \<le> s1" "0 \<le> s2" "0 \<le> c1" "0 \<le> c2"
    using assms by linarith+
  have s1_lo: "s1l\<^sup>2 \<le> s1\<^sup>2" and s2_lo: "s2l\<^sup>2 \<le> s2\<^sup>2"
    using assms by (simp_all add: power_mono)
  have s1_hi: "s1\<^sup>2 \<le> s1u\<^sup>2" and s2_hi: "s2\<^sup>2 \<le> s2u\<^sup>2"
    using assms nonneg by (simp_all add: power_mono)
  have cc_lo: "c1l * c2l \<le> c1 * c2"
    using assms nonneg by (intro mult_mono) simp_all
  have cc_hi: "c1 * c2 \<le> c1u * c2u"
    using assms nonneg by (intro mult_mono) linarith+
  have "c1l * c2l * s2l\<^sup>2 \<le> c1 * c2 * s2\<^sup>2"
    using cc_lo s2_lo nonneg by (intro mult_mono [of "c1l * c2l"]) simp_all
  with s1_lo show "s1l\<^sup>2 + c1l * c2l * s2l\<^sup>2 \<le> s1\<^sup>2 + c1 * c2 * s2\<^sup>2"
    by (rule add_mono)
  have "0 \<le> c1u * c2u"
    using assms nonneg by (intro mult_nonneg_nonneg) linarith+
  then have "c1 * c2 * s2\<^sup>2 \<le> c1u * c2u * s2u\<^sup>2"
    using cc_hi s2_hi by (intro mult_mono [of "c1 * c2"]) simp_all
  with s1_hi show "s1\<^sup>2 + c1 * c2 * s2\<^sup>2 \<le> s1u\<^sup>2 + c1u * c2u * s2u\<^sup>2"
    by (rule add_mono)
qed

lemma fallback_haversine_a_bounds:
  "0.002069 < haversine_a 35.8456 (- 103.3181) 35 (- 97)"
  "haversine_a 35.8456 (- 103.3181) 35 (- 97) < 0.002073"
proof -
  note interval = haversine_a_interval [OF _ sin_half_latitude_difference
      _ sin_half_longitude_difference _ cos_store_latitude _ cos_fallback_latitude]
  have "(0.002069::real) < 0.00737\<^sup>2 + 0.8105 * 0.8191 * 0.05509\<^sup>2"
    by (simp add: power_divide)
  also have "\<dots> \<le> haversine_a 35.8456 (- 103.3181) 35 (- 97)"
    unfolding fallback_haversine_a by (rule interval(1)) simp_all
  finally show "0.002069 < haversine_a 35.8456 (- 103.3181) 35 (- 97)" .
  have "haversine_a 35.8456 (- 103.3181) 35 (- 97) \<le>
      0.00739\<^sup>2 + 0.8107 * 0.8193 * 0.05512\<^sup>2"
    unfolding fallback_haversine_a by (rule interval(2)) simp_all
  also have "\<dots> < (0.002073::real)"
    by (simp add: power_divide)
  finally show "haversine_a 35.8456 (- 103.3181) 35 (- 97) < 0.002073" .
qed

lemma fallback_haversine_miles:
  "360 < haversine_miles 35.8456 (- 103.3181) 35 (- 97)"
  "haversine_miles 35.8456 (- 103.3181) 35 (- 97) < 361"
proof -
  let ?a = "haversine_a 35.8456 (- 103.3181) 35 (- 97)"
  have "sin (180 / 3959) \<le> (180 / 3959 :: real)"
    by (intro sin_x_le_x) simp
  moreover have "0 \<le> sin (180 / 3959 :: real)"
    using pi_gt_3141 by (intro sin_ge_zero) simp_all
  ultimately have "(sin (180 / 3959 :: real))\<^sup>2 \<le> (180 / 3959)\<^sup>2"
    by (intro power_mono) simp_all
  also have "\<dots> < (0.002069::real)"
    by (simp add: power_divide)
  finally have "(sin (180 / 3959 :: real))\<^sup>2 < ?a"
    using fallback_haversine_a_bounds(1) by simp
  moreover have "?a < 1"
    using fallback_haversine_a_bounds(2) by simp
  ultimately have "180 / 3959 < Math_atan2 (sqrt ?a) (sqrt (1 - ?a))"
    using pi_half_gt_3_2 by (intro haversine_angle_lower) simp_all
  then show "360 < haversine_miles 35.8456 (- 103.3181) 35 (- 97)"
    by (simp add: haversine_miles_def)
  have "(0.04557::real) \<le> 0.04559 - 0.04559 ^ 3 / 6 - 0.04559 ^ 5 / 120"
    by (simp add: power_divide)
  also have "\<dots> \<le> sin (361 / 7918 :: real)"
    by (intro sin_between(1) [of _ _ "361 / 7918"]) simp_all
  finally have "(0.04557::real)\<^sup>2 \<le> (sin (361 / 7918 :: real))\<^sup>2"
    by (intro power_mono) simp_all
  moreover have "(0.002073::real) < 0.04557\<^sup>2"
    by (simp add: power_divide)
  ultimately have "?a < (sin (361 / 7918 :: real))\<^sup>2"
    using fallback_haversine_a_bounds(2) by simp
  moreover have "0 \<le> ?a"
    by (rule haversine_a_bounds)
  ultimately have "Math_atan2 (sqrt ?a) (sqrt (1 - ?a)) < 361 / 7918"
    using pi_half_gt_3_2 by (intro haversine_angle_upper) simp_all
  then show "haversine_miles 35.8456 (- 103.3181) 35 (- 97) < 361"
    by (simp add: haversine_miles_def)
qed

text \<open>
  Claim C7, as stated, fails: from the default store location (35.8456, -103.3181) to
  the fallback coordinate (35.0, -97.0) \<open>calculateDistance\<close> returns more than 360 miles,
  over 7 miles (2 per cent) above 353.
\<close>

theorem fallback_distance_counterexample:
  "lat (STORE_LOCATION env_without_key) = 35.8456 \<and>
   lng (STORE_LOCATION env_without_key) = - 103.3181 \<and>
   js_gt (calculateDistance 35.8456 (- 103.3181) 35.0 (- 97.0)) (Some (353 + 7))"
  using fallback_haversine_miles(1)
  by (simp add: calculateDistance_haversine js_gt_def STORE_LOCATION_def env_without_key_def)

text \<open>
  Claim C7, amended. With the store location at its default coordinates
  (35.8456, -103.3181) and the destination at the hardcoded fallback coordinate
  (35.0, -97.0), which \<open>geocodeAddress\<close> returns when no geocoding key is configured,
  \<open>calculateDistance\<close> returns between 360 and 361 miles (approximately 360.5).
\<close>

theorem fallback_distance:
  "lat (STORE_LOCATION env_without_key) = 35.8456 \<and>
   lng (STORE_LOCATION env_without_key) = - 103.3181 \<and>
   fst (geocodeAddress env_without_key service addr) = Some \<lparr> lat = 35.0, lng = - 97.0 \<rparr> \<and>
   (\<exists>d. calculateDistance (lat (STORE_LOCATION env_without_key))
          (lng (STORE_LOCATION env_without_key)) 35.0 (- 97.0) = Some d \<and>
        360 < d \<and> d < 361)"
proof -
  have store: "lat (STORE_LOCATION env_without_key) = 35.8456"
    "lng (STORE_LOCATION env_without_key) = - 103.3181"
    by (simp_all add: STORE_LOCATION_def env_without_key_def)
  have "fst (geocodeAddress env_without_key service addr) = Some \<lparr> lat = 35.0, lng = - 97.0 \<rparr>"
    by (simp add: geocodeAddress_def env_without_key_def truthy_def)
  moreover have "\<exists>d. calculateDistance 35.8456 (- 103.3181) 35 (- 97) = Some d \<and>
      360 < d \<and> d < 361"
    using fallback_haversine_miles by (simp add: calculateDistance_haversine)
  ultimately show ?thesis
    unfolding store by simp
qed

end
